theory Spec2Isabelle
  imports Complex_Main
begin

section \<open>JavaScript values\<close>

text \<open>
  The strategy handles untyped JavaScript values: request sections, tokens, the provider's
  JSON, the user and info handed to the completion, and the errors it passes on. A number
  is a finite rational, NaN or an infinity (every finite double is a rational; the code
  only tests numbers for truthiness and copies them). A string is a \<open>char list\<close> of
  UTF-8 bytes; the one character the code looks for, the space 0x20, never occurs inside
  a multi-byte sequence, so splitting on it agrees with JavaScript's splitting on UTF-16
  units. An object is the list of its own properties in insertion order, with distinct
  keys. A function is known by its name only: the code meets one when a property read
  reaches a method of a prototype, and does no more with it than test it for truthiness
  and pass it on. The three error classes that occur are constructors of their own: the
  \<open>SyntaxError\<close> of \<open>JSON.parse\<close> with its message, the \<open>TypeError\<close> of reading a
  property of \<open>null\<close> or \<open>undefined\<close> or of calling a non-function, and
  passport-oauth's \<open>InternalOAuthError(message, err)\<close> with its two constructor
  arguments.
\<close>

datatype jsnum = Finite rat | NaN | PosInf | NegInf

datatype jsval =
    JUndefined
  | JNull
  | JBool bool
  | JNum jsnum
  | JStr string
  | JArr "jsval list"
  | JObj "(string \<times> jsval) list"
  | JSyntaxError string
  | JTypeError
  | JInternalOAuthError jsval jsval
  | JFunction string

text \<open>ToBoolean: what \<open>if (v)\<close>, \<open>!v\<close>, \<open>v && w\<close>, \<open>v || w\<close> and \<open>v ? a : b\<close> test.\<close>

fun truthy :: "jsval \<Rightarrow> bool" where
  "truthy JUndefined = False"
| "truthy JNull = False"
| "truthy (JBool b) = b"
| "truthy (JNum (Finite q)) = (q \<noteq> 0)"
| "truthy (JNum NaN) = False"
| "truthy (JNum PosInf) = True"
| "truthy (JNum NegInf) = True"
| "truthy (JStr s) = (s \<noteq> [])"
| "truthy (JArr xs) = True"
| "truthy (JObj kvs) = True"
| "truthy (JSyntaxError m) = True"
| "truthy JTypeError = True"
| "truthy (JInternalOAuthError m e) = True"
| "truthy (JFunction f) = True"

text \<open>\<open>a && b\<close> and \<open>a || b\<close> on values (the right operand has no effect in this code).\<close>

definition js_and :: "jsval \<Rightarrow> jsval \<Rightarrow> jsval" where
  "js_and a b = (if truthy a then b else a)"

definition js_or :: "jsval \<Rightarrow> jsval \<Rightarrow> jsval" where
  "js_or a b = (if truthy a then a else b)"

text \<open>
  Reading a property throws a \<open>TypeError\<close> on \<open>null\<close> and \<open>undefined\<close> and on nothing
  else.
\<close>

fun nullish :: "jsval \<Rightarrow> bool" where
  "nullish JUndefined = True"
| "nullish JNull = True"
| "nullish v = False"

text \<open>
  \<open>v.k\<close> for a property name \<open>k\<close> that the code spells out, on a value that is not
  nullish: the own property \<open>k\<close> of an object, \<open>undefined\<close> when there is none. The
  names the code spells out (\<open>id\<close>, \<open>username\<close>, \<open>full_name\<close>, \<open>avatar_url\<close>,
  \<open>data\<close>, \<open>statusCode\<close>, \<open>errors\<close>, \<open>error_message\<close>, and in the legacy file
  \<open>access_token\<close> and \<open>refresh_token\<close>) are found on no prototype and are not
  synthesised by the language, so the own properties decide these reads. On a nullish value
  the function returns \<open>undefined\<close>; every read in the code that can meet one is guarded,
  by \<open>&&\<close> in the code and by \<open>nullish\<close> here.
\<close>

fun get :: "jsval \<Rightarrow> string \<Rightarrow> jsval" where
  "get (JObj kvs) k = (case map_of kvs k of Some v \<Rightarrow> v | None \<Rightarrow> JUndefined)"
| "get (JInternalOAuthError m e) k =
     (if k = ''name'' then JStr ''InternalOAuthError''
      else if k = ''message'' then m
      else if k = ''oauthError'' then e
      else JUndefined)"
| "get v k = JUndefined"

text \<open>
  \<open>v[k]\<close> for a property name \<open>k\<close> that is configured, on a value that is not nullish.
  Such a name can be any string, also \<open>constructor\<close>, \<open>toString\<close> or \<open>length\<close>: the
  read gives the own property when there is one, and otherwise what the value inherits
  through its prototype chain or what the language synthesises for it (the length and the
  characters of a string, the length and the elements of an array), \<open>undefined\<close> when
  there is nothing. What a value inherits depends on its prototype, which belongs to the
  language and to whoever built the value, not to the repository: it is a parameter
  \<open>inherited\<close> of every function that makes such a read.
\<close>

fun has_own :: "jsval \<Rightarrow> string \<Rightarrow> bool" where
  "has_own (JObj kvs) k = (map_of kvs k \<noteq> None)"
| "has_own (JInternalOAuthError m e) k = (k \<in> set [''name'', ''message'', ''oauthError''])"
| "has_own v k = False"

definition lookup :: "(jsval \<Rightarrow> string \<Rightarrow> jsval) \<Rightarrow> jsval \<Rightarrow> string \<Rightarrow> jsval" where
  "lookup inherited v k = (if has_own v k then get v k else inherited v k)"

text \<open>
  \<open>v[0]\<close> on a value that is not nullish: the first element of an array, the first
  character of a string, the property \<open>0\<close> of an object.
\<close>

fun get0 :: "jsval \<Rightarrow> jsval" where
  "get0 (JArr []) = JUndefined"
| "get0 (JArr (x # xs)) = x"
| "get0 (JStr []) = JUndefined"
| "get0 (JStr (c # cs)) = JStr [c]"
| "get0 v = get v ''0''"

text \<open>
  \<open>s.split(' ', 2)\<close>: \<open>String.prototype.split\<close> with a one-character separator cuts
  the string at every occurrence of the separator (an empty string gives one empty
  piece) and keeps the first \<open>limit\<close> pieces.
\<close>

fun split_char :: "char \<Rightarrow> string \<Rightarrow> string list" where
  "split_char sep [] = [[]]"
| "split_char sep (c # cs) =
     (if c = sep then [] # split_char sep cs
      else (case split_char sep cs of
              [] \<Rightarrow> [[c]]
            | p # ps \<Rightarrow> (c # p) # ps))"

definition js_split :: "string \<Rightarrow> char \<Rightarrow> nat \<Rightarrow> string list" where
  "js_split s sep limit = take limit (split_char sep s)"

text \<open>\<open>pieces[i]\<close> on the array that \<open>split\<close> returns: \<open>undefined\<close> past its end.\<close>

definition piece :: "string list \<Rightarrow> nat \<Rightarrow> jsval" where
  "piece ps i = (if i < length ps then JStr (ps ! i) else JUndefined)"

section \<open>Effects: host signals, exceptions, callbacks\<close>

text \<open>
  The authentication host augments the strategy with \<open>this.fail\<close>, \<open>this.error\<close> and
  \<open>this.success\<close>; calling one is an event observed by the host. A run of a piece of
  code is the list of events it caused, in order, and the exception that left it, if any.
  A callback is a function from its arguments to a run: the code calls all its
  collaborators (the transport's \<open>get\<close>, the application's verify function, \<open>done\<close>) in
  continuation-passing style, so what a collaborator does with the callback it is given
  (call it once, never, or twice) is part of the collaborator, not of the model.
\<close>

datatype event = Fail jsval | Error jsval | Success jsval jsval

type_synonym run = "event list \<times> jsval option"

definition this_fail :: "jsval \<Rightarrow> run" where
  "this_fail reason = ([Fail reason], None)"

definition this_error :: "jsval \<Rightarrow> run" where
  "this_error err = ([Error err], None)"

definition this_success :: "jsval \<Rightarrow> jsval \<Rightarrow> run" where
  "this_success user info = ([Success user info], None)"

definition throw :: "jsval \<Rightarrow> run" where
  "throw e = ([], Some e)"

text \<open>\<open>try { r } catch (e) { handler(e) }\<close>\<close>

definition try_catch :: "run \<Rightarrow> (jsval \<Rightarrow> run) \<Rightarrow> run" where
  "try_catch r handler =
     (case r of
        (evs, None) \<Rightarrow> (evs, None)
      | (evs, Some e) \<Rightarrow> (case handler e of (evs', x) \<Rightarrow> (evs @ evs', x)))"

text \<open>
  The request, as far as the strategy reads it. The host always passes a request object,
  so \<open>req.body\<close>, \<open>req.query\<close> and \<open>req.headers\<close> never throw; a section that is
  not there is \<open>undefined\<close>.
\<close>

record request =
  req_body :: jsval
  req_query :: jsval
  req_headers :: jsval

text \<open>
  The positional arguments of a call of the verify function: the request, plain values
  and the completion \<open>verified(error, user, info)\<close>.
\<close>

datatype jsarg = AReq request | AVal jsval | AFun "jsval \<Rightarrow> jsval \<Rightarrow> jsval \<Rightarrow> run"

section \<open>Construction\<close>

text \<open>
  The options object, as far as the two constructors read it. A string option that was not
  given is \<open>None\<close>; \<open>options.x || d\<close> takes the default \<open>d\<close> for a missing and for an
  empty string.
\<close>

record options =
  opt_authorizationURL :: "string option"
  opt_tokenURL :: "string option"
  opt_profileURL :: "string option"
  opt_accessTokenField :: "string option"
  opt_refreshTokenField :: "string option"
  opt_passReqToCallback :: jsval

definition or_default :: "string option \<Rightarrow> string \<Rightarrow> string" where
  "or_default x d = (case x of None \<Rightarrow> d | Some s \<Rightarrow> if s = [] then d else s)"

text \<open>
  The state of a strategy. The legacy, prototype-based constructor
  (\<open>src/unnamed/part_001\<close>) sets the fields of \<open>legacy_strategy\<close>; the class-based constructor
  (\<open>src/index.js\<close>) sets the two token field names as well. \<open>verify\<close> is the
  application's verify function and \<open>oauth2_get\<close> the transport's
  \<open>_oauth2.get(url, accessToken, callback)\<close>, both kept by the base class
  \<open>OAuth2Strategy\<close> of passport-oauth; \<open>authorizationURL\<close> and \<open>tokenURL\<close> are the
  values handed to that base class.
\<close>

record legacy_strategy =
  name :: string
  authorizationURL :: string
  tokenURL :: string
  profileURL :: string
  passReqToCallback :: jsval
  useAuthorizationHeaderForGET :: bool
  verify :: "jsarg list \<Rightarrow> run"
  oauth2_get :: "string \<Rightarrow> jsval \<Rightarrow> (jsval \<Rightarrow> jsval \<Rightarrow> jsval \<Rightarrow> run) \<Rightarrow> run"

record strategy = legacy_strategy +
  accessTokenField :: string
  refreshTokenField :: string

text \<open>\<open>constructor(_options, _verify)\<close> of \<open>src/index.js\<close>.\<close>

definition SoundCloudTokenStrategy ::
  "options \<Rightarrow> (jsarg list \<Rightarrow> run) \<Rightarrow>
   (string \<Rightarrow> jsval \<Rightarrow> (jsval \<Rightarrow> jsval \<Rightarrow> jsval \<Rightarrow> run) \<Rightarrow> run) \<Rightarrow> strategy" where
  "SoundCloudTokenStrategy opts vfy transport =
     \<lparr> name = ''soundcloud-token'',
       authorizationURL = or_default (opt_authorizationURL opts) ''https://soundcloud.com/connect'',
       tokenURL = or_default (opt_tokenURL opts) ''https://api.soundcloud.com/oauth2/token'',
       profileURL = or_default (opt_profileURL opts) ''https://api.soundcloud.com/me.json'',
       passReqToCallback = opt_passReqToCallback opts,
       useAuthorizationHeaderForGET = True,
       verify = vfy,
       oauth2_get = transport,
       accessTokenField = or_default (opt_accessTokenField opts) ''access_token'',
       refreshTokenField = or_default (opt_refreshTokenField opts) ''refresh_token'' \<rparr>"

text \<open>
  \<open>function SoundCloudTokenStrategy(options, verify)\<close> of the legacy file: it reads no
  token field name from the options.
\<close>

definition SoundCloudTokenStrategy_legacy ::
  "options \<Rightarrow> (jsarg list \<Rightarrow> run) \<Rightarrow>
   (string \<Rightarrow> jsval \<Rightarrow> (jsval \<Rightarrow> jsval \<Rightarrow> jsval \<Rightarrow> run) \<Rightarrow> run) \<Rightarrow> legacy_strategy" where
  "SoundCloudTokenStrategy_legacy opts vfy transport =
     \<lparr> name = ''soundcloud-token'',
       authorizationURL = or_default (opt_authorizationURL opts) ''https://soundcloud.com/connect'',
       tokenURL = or_default (opt_tokenURL opts) ''https://api.soundcloud.com/oauth2/token'',
       profileURL = or_default (opt_profileURL opts) ''https://api.soundcloud.com/me.json'',
       passReqToCallback = opt_passReqToCallback opts,
       useAuthorizationHeaderForGET = True,
       verify = vfy,
       oauth2_get = transport \<rparr>"

section \<open>The class-based strategy (\<open>src/index.js\<close>)\<close>

text \<open>
  \<open>JSON.parse\<close> belongs to the language, not to the repository: it is a parameter
  \<open>JSON_parse\<close> of every function that reaches it, giving the parsed value (\<open>Inr\<close>) or
  the message of the \<open>SyntaxError\<close> it throws (\<open>Inl\<close>).
\<close>

text \<open>
  \<open>json.full_name ? json.full_name.split(' ', 2)[i] : ''\<close>, given the value of
  \<open>json.full_name\<close>. Only a string has a \<open>split\<close> method: on any other truthy value
  the call throws a \<open>TypeError\<close>.
\<close>

definition name_part :: "jsval \<Rightarrow> nat \<Rightarrow> jsval + jsval" where
  "name_part full_name i =
     (if truthy full_name then
        (case full_name of
           JStr s \<Rightarrow> Inr (piece (js_split s CHR '' '' 2) i)
         | _ \<Rightarrow> Inl JTypeError)
      else Inr (JStr []))"

text \<open>
  The object literal \<open>profile = {...}\<close> of \<open>userProfile\<close>, lines 94 to 109: the profile
  (\<open>Inr\<close>), or the exception that building it throws (\<open>Inl\<close>). \<open>json.id\<close> throws on
  \<open>null\<close>, the one nullish value \<open>JSON.parse\<close> can return.
\<close>

definition profile_object :: "jsval \<Rightarrow> jsval \<Rightarrow> jsval + jsval" where
  "profile_object body json =
     (if nullish json then Inl JTypeError
      else
        (case name_part (get json ''full_name'') 1 of
           Inl e \<Rightarrow> Inl e
         | Inr familyName \<Rightarrow>
            (case name_part (get json ''full_name'') 0 of
               Inl e \<Rightarrow> Inl e
             | Inr givenName \<Rightarrow>
                Inr (JObj
                  [(''provider'', JStr ''soundcloud''),
                   (''id'', get json ''id''),
                   (''username'', get json ''username''),
                   (''displayName'', js_or (get json ''full_name'') (JStr [])),
                   (''name'', JObj [(''familyName'', familyName), (''givenName'', givenName)]),
                   (''emails'', JArr []),
                   (''photos'', JArr [JObj [(''value'', js_or (get json ''avatar_url'') (JStr []))]]),
                   (''_raw'', body),
                   (''_json'', json)]))))"

text \<open>
  The callback \<open>(error, body, res) => {...}\<close> that \<open>userProfile\<close> hands to the transport,
  lines 82 to 115. Both calls of \<open>done\<close> in a \<open>try\<close> block are inside it, so an exception
  that \<open>done\<close> throws there is caught and \<open>done\<close> is called again.
\<close>

definition userProfile_callback ::
  "(jsval \<Rightarrow> string + jsval) \<Rightarrow> (jsval \<Rightarrow> jsval \<Rightarrow> run) \<Rightarrow> jsval \<Rightarrow> jsval \<Rightarrow> jsval \<Rightarrow> run" where
  "userProfile_callback JSON_parse done error body res =
     (if truthy error then
        try_catch
          (case JSON_parse (get error ''data'') of
             Inl m \<Rightarrow> throw (JSyntaxError m)
           | Inr errorJSON \<Rightarrow>
              if nullish errorJSON then throw JTypeError
              else if nullish (get errorJSON ''errors'') then throw JTypeError
              else if nullish (get0 (get errorJSON ''errors'')) then throw JTypeError
              else done (JInternalOAuthError
                           (get (get0 (get errorJSON ''errors'')) ''error_message'')
                           (get error ''statusCode''))
                        JUndefined)
          (\<lambda>_. done (JInternalOAuthError (JStr ''Failed to fetch user profile'') error) JUndefined)
      else
        try_catch
          (case JSON_parse body of
             Inl m \<Rightarrow> throw (JSyntaxError m)
           | Inr json \<Rightarrow>
              (case profile_object body json of
                 Inl e \<Rightarrow> throw e
               | Inr profile \<Rightarrow> done JNull profile))
          (\<lambda>e. done e JUndefined))"

definition userProfile ::
  "(jsval \<Rightarrow> string + jsval) \<Rightarrow> strategy \<Rightarrow> jsval \<Rightarrow> (jsval \<Rightarrow> jsval \<Rightarrow> run) \<Rightarrow> run" where
  "userProfile JSON_parse s accessToken done =
     oauth2_get s (profileURL s) accessToken (userProfile_callback JSON_parse done)"

text \<open>
  Modelled from the spec: \<open>_loadUserProfile\<close> is a method of the base class
  \<open>OAuth2Strategy\<close> of passport-oauth and is not among the sources. The specification
  (4.2, step 4) has \<open>authenticate\<close> invoke the profile retrieval of 4.3 with the access
  token, so it is modelled as the call of \<open>userProfile\<close> with the same arguments.
\<close>

definition loadUserProfile ::
  "(jsval \<Rightarrow> string + jsval) \<Rightarrow> strategy \<Rightarrow> jsval \<Rightarrow> (jsval \<Rightarrow> jsval \<Rightarrow> run) \<Rightarrow> run" where
  "loadUserProfile JSON_parse s accessToken done = userProfile JSON_parse s accessToken done"

text \<open>The completion \<open>verified = (error, user, info) => {...}\<close>, lines 61 to 66.\<close>

definition verified :: "jsval \<Rightarrow> jsval \<Rightarrow> jsval \<Rightarrow> run" where
  "verified error user info =
     (if truthy error then this_error error
      else if \<not> truthy user then this_fail info
      else this_success user info)"

text \<open>The callback \<open>(error, profile) => {...}\<close> given to \<open>_loadUserProfile\<close>, lines 58 to 73.\<close>

definition authenticate_callback ::
  "strategy \<Rightarrow> request \<Rightarrow> jsval \<Rightarrow> jsval \<Rightarrow> jsval \<Rightarrow> jsval \<Rightarrow> run" where
  "authenticate_callback s req accessToken refreshToken error profile =
     (if truthy error then this_error error
      else if truthy (passReqToCallback s) then
        verify s [AReq req, AVal accessToken, AVal refreshToken, AVal profile, AFun verified]
      else
        verify s [AVal accessToken, AVal refreshToken, AVal profile, AFun verified])"

text \<open>
  The right-hand sides of lines 53 and 54. The property names are the configured ones, so
  the reads \<open>req.body[this._accessTokenField]\<close> go through \<open>lookup\<close>.
\<close>

definition accessToken_of :: "(jsval \<Rightarrow> string \<Rightarrow> jsval) \<Rightarrow> strategy \<Rightarrow> request \<Rightarrow> jsval" where
  "accessToken_of inherited s req =
     js_or (js_and (req_body req) (lookup inherited (req_body req) (accessTokenField s)))
           (js_and (req_query req) (lookup inherited (req_query req) (accessTokenField s)))"

definition refreshToken_of :: "(jsval \<Rightarrow> string \<Rightarrow> jsval) \<Rightarrow> strategy \<Rightarrow> request \<Rightarrow> jsval" where
  "refreshToken_of inherited s req =
     js_or (js_and (req_body req) (lookup inherited (req_body req) (refreshTokenField s)))
           (js_and (req_query req) (lookup inherited (req_query req) (refreshTokenField s)))"

text \<open>\<open>authenticate(req, options)\<close>, lines 52 to 74; its second argument is never read.\<close>

definition authenticate ::
  "(jsval \<Rightarrow> string \<Rightarrow> jsval) \<Rightarrow> (jsval \<Rightarrow> string + jsval) \<Rightarrow> strategy \<Rightarrow> request \<Rightarrow> run" where
  "authenticate inherited JSON_parse s req =
     (let accessToken = accessToken_of inherited s req;
          refreshToken = refreshToken_of inherited s req
      in if \<not> truthy accessToken then
           this_fail (JObj [(''message'', JStr (''You should provide '' @ accessTokenField s))])
         else
           loadUserProfile JSON_parse s accessToken
             (authenticate_callback s req accessToken refreshToken))"

section \<open>The legacy, prototype-based strategy (\<open>src/unnamed/part_001\<close>)\<close>

text \<open>The object literal \<open>profile = {...}\<close> of the legacy \<open>userProfile\<close>, lines 93 to 108.\<close>

definition profile_object_legacy :: "jsval \<Rightarrow> jsval \<Rightarrow> jsval + jsval" where
  "profile_object_legacy body json =
     (if nullish json then Inl JTypeError
      else
        (case name_part (get json ''full_name'') 1 of
           Inl e \<Rightarrow> Inl e
         | Inr familyName \<Rightarrow>
            (case name_part (get json ''full_name'') 0 of
               Inl e \<Rightarrow> Inl e
             | Inr givenName \<Rightarrow>
                Inr (JObj
                  [(''provider'', JStr ''soundcloud''),
                   (''id'', get json ''id''),
                   (''username'', get json ''username''),
                   (''displayName'', js_or (get json ''full_name'') (JStr [])),
                   (''name'', JObj [(''familyName'', familyName), (''givenName'', givenName)]),
                   (''emails'', JArr []),
                   (''photos'', JArr [JObj [(''value'', js_or (get json ''avatar_url'') (JStr []))]]),
                   (''_raw'', body),
                   (''_json'', json)]))))"

text \<open>
  The callback \<open>function (error, body, res) {...}\<close> of the legacy \<open>userProfile\<close>, lines 88
  to 114: a transport error is wrapped without looking into it, outside any \<open>try\<close>.
\<close>

definition userProfile_callback_legacy ::
  "(jsval \<Rightarrow> string + jsval) \<Rightarrow> (jsval \<Rightarrow> jsval \<Rightarrow> run) \<Rightarrow> jsval \<Rightarrow> jsval \<Rightarrow> jsval \<Rightarrow> run" where
  "userProfile_callback_legacy JSON_parse done error body res =
     (if truthy error then
        done (JInternalOAuthError (JStr ''Failed to fetch user profile'') error) JUndefined
      else
        try_catch
          (case JSON_parse body of
             Inl m \<Rightarrow> throw (JSyntaxError m)
           | Inr json \<Rightarrow>
              (case profile_object_legacy body json of
                 Inl e \<Rightarrow> throw e
               | Inr profile \<Rightarrow> done JNull profile))
          (\<lambda>e. done e JUndefined))"

definition userProfile_legacy ::
  "(jsval \<Rightarrow> string + jsval) \<Rightarrow> legacy_strategy \<Rightarrow> jsval \<Rightarrow> (jsval \<Rightarrow> jsval \<Rightarrow> run) \<Rightarrow> run" where
  "userProfile_legacy JSON_parse s accessToken done =
     oauth2_get s (profileURL s) accessToken (userProfile_callback_legacy JSON_parse done)"

text \<open>
  Modelled from the spec: \<open>_loadUserProfile\<close> of the base class, as above, reaching the
  legacy \<open>userProfile\<close>.
\<close>

definition loadUserProfile_legacy ::
  "(jsval \<Rightarrow> string + jsval) \<Rightarrow> legacy_strategy \<Rightarrow> jsval \<Rightarrow> (jsval \<Rightarrow> jsval \<Rightarrow> run) \<Rightarrow> run" where
  "loadUserProfile_legacy JSON_parse s accessToken done =
     userProfile_legacy JSON_parse s accessToken done"

text \<open>\<open>function verified(error, user, info)\<close>, lines 67 to 72.\<close>

definition verified_legacy :: "jsval \<Rightarrow> jsval \<Rightarrow> jsval \<Rightarrow> run" where
  "verified_legacy error user info =
     (if truthy error then this_error error
      else if \<not> truthy user then this_fail info
      else this_success user info)"

text \<open>The callback \<open>function (error, profile) {...}\<close>, lines 64 to 79.\<close>

definition authenticate_callback_legacy ::
  "legacy_strategy \<Rightarrow> request \<Rightarrow> jsval \<Rightarrow> jsval \<Rightarrow> jsval \<Rightarrow> jsval \<Rightarrow> run" where
  "authenticate_callback_legacy s req accessToken refreshToken error profile =
     (if truthy error then this_error error
      else if truthy (passReqToCallback s) then
        verify s [AReq req, AVal accessToken, AVal refreshToken, AVal profile, AFun verified_legacy]
      else
        verify s [AVal accessToken, AVal refreshToken, AVal profile, AFun verified_legacy])"

text \<open>The right-hand sides of lines 57 and 58: fixed property names, and the headers last.\<close>

definition accessToken_of_legacy :: "request \<Rightarrow> jsval" where
  "accessToken_of_legacy req =
     js_or (js_or (js_and (req_body req) (get (req_body req) ''access_token''))
                  (js_and (req_query req) (get (req_query req) ''access_token'')))
           (js_and (req_headers req) (get (req_headers req) ''access_token''))"

definition refreshToken_of_legacy :: "request \<Rightarrow> jsval" where
  "refreshToken_of_legacy req =
     js_or (js_or (js_and (req_body req) (get (req_body req) ''refresh_token''))
                  (js_and (req_query req) (get (req_query req) ''refresh_token'')))
           (js_and (req_headers req) (get (req_headers req) ''refresh_token''))"

text \<open>The legacy \<open>authenticate(req, options)\<close>, lines 55 to 80.\<close>

definition authenticate_legacy ::
  "(jsval \<Rightarrow> string + jsval) \<Rightarrow> legacy_strategy \<Rightarrow> request \<Rightarrow> run" where
  "authenticate_legacy JSON_parse s req =
     (let accessToken = accessToken_of_legacy req;
          refreshToken = refreshToken_of_legacy req
      in if \<not> truthy accessToken then
           this_fail (JObj [(''message'', JStr ''You should provide access_token'')])
         else
           loadUserProfile_legacy JSON_parse s accessToken
             (authenticate_callback_legacy s req accessToken refreshToken))"

section \<open>Notions of the specification\<close>

text \<open>
  The value a request section holds for a field: that of the property when the section is
  there, absent (\<open>undefined\<close>) when the section itself is missing or empty. A value is
  empty or absent when it is not \<open>truthy\<close>. \<open>field_of\<close> is the value held as own
  property, which is the whole of it for the fixed names \<open>access_token\<close> and
  \<open>refresh_token\<close>; \<open>field_read\<close> is the value that reading the property gives, own or
  inherited, which is what counts for a configured name.
\<close>

definition field_of :: "jsval \<Rightarrow> string \<Rightarrow> jsval" where
  "field_of section k = (if truthy section then get section k else JUndefined)"

definition field_read :: "(jsval \<Rightarrow> string \<Rightarrow> jsval) \<Rightarrow> jsval \<Rightarrow> string \<Rightarrow> jsval" where
  "field_read inherited section k =
     (if truthy section then lookup inherited section k else JUndefined)"

text \<open>
  Following the specification's words (section 3): the two name parts of a full name, split
  at its first whitespace run.
\<close>

definition is_whitespace :: "char \<Rightarrow> bool" where
  "is_whitespace c = (c \<in> set [CHR '' '', CHR 0x09, CHR 0x0A, CHR 0x0B, CHR 0x0C, CHR 0x0D])"

definition split_first_whitespace_run :: "string \<Rightarrow> string \<times> string" where
  "split_first_whitespace_run s =
     (takeWhile (\<lambda>c. \<not> is_whitespace c) s,
      dropWhile is_whitespace (dropWhile (\<lambda>c. \<not> is_whitespace c) s))"

section \<open>Test doubles and fixtures\<close>

text \<open>
  The collaborators the repository's tests (\<open>src/unnamed/part_000\<close>) plug in, used below to run the strategy on
  concrete inputs. The transport stub answers every call at once with a fixed error and
  body, as \<open>strategy._oauth2.get = function (url, accessToken, next) { next(null,
  fakeProfile, null); }\<close> does; the verify stubs complete at once with the profile as user
  and \<open>{info: 'foo'}\<close>, and throw a \<open>TypeError\<close> when the completion is not where they
  expect it. \<open>parse_table\<close> is \<open>JSON.parse\<close> cut down to a finite table of texts; any
  other text is a syntax error.
\<close>

definition parse_table :: "(string \<times> jsval) list \<Rightarrow> jsval \<Rightarrow> string + jsval" where
  "parse_table table text =
     (case text of
        JStr s \<Rightarrow> (case map_of table s of Some v \<Rightarrow> Inr v | None \<Rightarrow> Inl ''Unexpected token'')
      | _ \<Rightarrow> Inl ''Unexpected token'')"

definition transport_stub ::
  "jsval \<Rightarrow> jsval \<Rightarrow> string \<Rightarrow> jsval \<Rightarrow> (jsval \<Rightarrow> jsval \<Rightarrow> jsval \<Rightarrow> run) \<Rightarrow> run" where
  "transport_stub error body url accessToken next = next error body JNull"

definition verify_stub :: "jsarg list \<Rightarrow> run" where
  "verify_stub args =
     (case args of
        [AVal accessToken, AVal refreshToken, AVal profile, AFun next] \<Rightarrow>
          next JNull profile (JObj [(''info'', JStr ''foo'')])
      | _ \<Rightarrow> throw JTypeError)"

definition verify_stub_req :: "jsarg list \<Rightarrow> run" where
  "verify_stub_req args =
     (case args of
        [AReq req, AVal accessToken, AVal refreshToken, AVal profile, AFun next] \<Rightarrow>
          next JNull profile (JObj [(''info'', JStr ''foo'')])
      | _ \<Rightarrow> throw JTypeError)"

text \<open>
  A verify function that completes at once with a given \<open>(error, user, info)\<close> through
  the completion, its last argument.
\<close>

definition completing_verify :: "jsval \<Rightarrow> jsval \<Rightarrow> jsval \<Rightarrow> jsarg list \<Rightarrow> run" where
  "completing_verify error user info args =
     (case rev args of
        AFun next # _ \<Rightarrow> next error user info
      | _ \<Rightarrow> throw JTypeError)"

text \<open>
  What a plain object inherits from \<open>Object.prototype\<close>: its methods, under their names.
  Other values inherit nothing here; the concrete inputs below read no property from them.
\<close>

definition object_prototype :: "jsval \<Rightarrow> string \<Rightarrow> jsval" where
  "object_prototype v k =
     (case v of
        JObj kvs \<Rightarrow>
          if k = ''constructor'' then JFunction ''Object''
          else if k \<in> set [''hasOwnProperty'', ''isPrototypeOf'', ''propertyIsEnumerable'',
                           ''toLocaleString'', ''toString'', ''valueOf'']
          then JFunction k
          else JUndefined
      | _ \<Rightarrow> JUndefined)"

definition no_options :: options where
  "no_options =
     \<lparr> opt_authorizationURL = None, opt_tokenURL = None, opt_profileURL = None,
       opt_accessTokenField = None, opt_refreshTokenField = None,
       opt_passReqToCallback = JUndefined \<rparr>"

text \<open>The provider JSON of the specification's example, as text and parsed.\<close>

definition fixture_text :: string where
  "fixture_text =
     ''{\"id\":\"3207\",\"full_name\":\"Johannes Wagener\",\"avatar_url\":\"http://example/img.jpg\"}''"

definition fixture_json :: jsval where
  "fixture_json =
     JObj [(''id'', JStr ''3207''),
           (''full_name'', JStr ''Johannes Wagener''),
           (''avatar_url'', JStr ''http://example/img.jpg'')]"

definition test_parse :: "jsval \<Rightarrow> string + jsval" where
  "test_parse = parse_table [(fixture_text, fixture_json)]"

definition test_strategy :: strategy where
  "test_strategy =
     SoundCloudTokenStrategy no_options verify_stub (transport_stub JNull (JStr fixture_text))"

definition test_strategy_req :: strategy where
  "test_strategy_req =
     SoundCloudTokenStrategy (no_options\<lparr>opt_passReqToCallback := JBool True\<rparr>) verify_stub_req
       (transport_stub JNull (JStr fixture_text))"

definition test_legacy_strategy :: legacy_strategy where
  "test_legacy_strategy =
     SoundCloudTokenStrategy_legacy no_options verify_stub
       (transport_stub JNull (JStr fixture_text))"

definition test_legacy_strategy_req :: legacy_strategy where
  "test_legacy_strategy_req =
     SoundCloudTokenStrategy_legacy (no_options\<lparr>opt_passReqToCallback := JBool True\<rparr>)
       verify_stub_req (transport_stub JNull (JStr fixture_text))"

text \<open>An application that rejects every user, and one whose user lookup breaks.\<close>

definition rejecting_strategy :: strategy where
  "rejecting_strategy =
     SoundCloudTokenStrategy no_options
       (completing_verify JNull (JBool False) (JObj [(''message'', JStr ''no such user'')]))
       (transport_stub JNull (JStr fixture_text))"

definition broken_legacy_strategy :: legacy_strategy where
  "broken_legacy_strategy =
     SoundCloudTokenStrategy_legacy no_options
       (completing_verify (JStr ''database down'') JUndefined JUndefined)
       (transport_stub JNull (JStr fixture_text))"

text \<open>Strategies configured with the field name \<open>token\<close> for the access token.\<close>

definition renamed_strategy :: strategy where
  "renamed_strategy =
     SoundCloudTokenStrategy (no_options\<lparr>opt_accessTokenField := Some ''token''\<rparr>) verify_stub
       (transport_stub JNull (JStr fixture_text))"

definition renamed_legacy_strategy :: legacy_strategy where
  "renamed_legacy_strategy =
     SoundCloudTokenStrategy_legacy (no_options\<lparr>opt_accessTokenField := Some ''token''\<rparr>)
       verify_stub (transport_stub JNull (JStr fixture_text))"

text \<open>
  A class-based strategy configured with the field name \<open>constructor\<close>, and a request
  whose body is the empty object \<open>{}\<close>.
\<close>

definition constructor_strategy :: strategy where
  "constructor_strategy =
     SoundCloudTokenStrategy (no_options\<lparr>opt_accessTokenField := Some ''constructor''\<rparr>)
       verify_stub (transport_stub JNull (JStr fixture_text))"

definition bare_request :: request where
  "bare_request = \<lparr> req_body = JObj [], req_query = JUndefined, req_headers = JUndefined \<rparr>"

text \<open>A transport that answers with a body that is no JSON, and one that fails.\<close>

definition garbled_strategy :: strategy where
  "garbled_strategy =
     SoundCloudTokenStrategy no_options verify_stub (transport_stub JNull (JStr ''not a JSON''))"

definition garbled_legacy_strategy :: legacy_strategy where
  "garbled_legacy_strategy =
     SoundCloudTokenStrategy_legacy no_options verify_stub
       (transport_stub JNull (JStr ''not a JSON''))"

definition failing_strategy :: "jsval \<Rightarrow> strategy" where
  "failing_strategy error = SoundCloudTokenStrategy no_options verify_stub (transport_stub error JNull)"

definition failing_legacy_strategy :: "jsval \<Rightarrow> legacy_strategy" where
  "failing_legacy_strategy error =
     SoundCloudTokenStrategy_legacy no_options verify_stub (transport_stub error JNull)"

definition error_text :: string where
  "error_text = ''{\"errors\":[{\"error_message\":\"401 - Unauthorized\"}]}''"

definition error_json :: jsval where
  "error_json = JObj [(''errors'', JArr [JObj [(''error_message'', JStr ''401 - Unauthorized'')]])]"

definition error_parse :: "jsval \<Rightarrow> string + jsval" where
  "error_parse = parse_table [(error_text, error_json), (''{}'', JObj [])]"

definition provider_error :: jsval where
  "provider_error = JObj [(''statusCode'', JNum (Finite 401)), (''data'', JStr error_text)]"

definition socket_error :: jsval where
  "socket_error = JObj [(''code'', JStr ''ECONNRESET'')]"

definition empty_data_error :: jsval where
  "empty_data_error = JObj [(''statusCode'', JNum (Finite 500)), (''data'', JStr ''{}'')]"

text \<open>Requests: with nothing, with the tokens in the body, in the headers, and spread out.\<close>

definition empty_request :: request where
  "empty_request = \<lparr> req_body = JUndefined, req_query = JUndefined, req_headers = JUndefined \<rparr>"

definition body_request :: request where
  "body_request =
     \<lparr> req_body = JObj [(''access_token'', JStr ''access_token''),
                        (''refresh_token'', JStr ''refresh_token'')],
       req_query = JUndefined,
       req_headers = JUndefined \<rparr>"

definition headers_request :: request where
  "headers_request =
     \<lparr> req_body = JUndefined,
       req_query = JUndefined,
       req_headers = JObj [(''access_token'', JStr ''access_token''),
                           (''refresh_token'', JStr ''refresh_token'')] \<rparr>"

definition mixed_request :: request where
  "mixed_request =
     \<lparr> req_body = JObj [(''access_token'', JStr [])],
       req_query = JObj [(''access_token'', JStr ''Q'')],
       req_headers = JObj [(''access_token'', JStr ''H''), (''refresh_token'', JStr ''R'')] \<rparr>"

definition renamed_request :: request where
  "renamed_request =
     \<lparr> req_body = JObj [(''token'', JStr ''T'')],
       req_query = JUndefined,
       req_headers = JUndefined \<rparr>"

text \<open>Callbacks for \<open>userProfile\<close>: those \<open>authenticate\<close> passes on.\<close>

definition test_done :: "jsval \<Rightarrow> jsval \<Rightarrow> run" where
  "test_done =
     authenticate_callback test_strategy body_request (JStr ''access_token'') (JStr ''refresh_token'')"

definition test_done_req :: "jsval \<Rightarrow> jsval \<Rightarrow> run" where
  "test_done_req =
     authenticate_callback test_strategy_req body_request (JStr ''access_token'')
       (JStr ''refresh_token'')"

section \<open>Auxiliary facts\<close>

subsection \<open>Exceptions\<close>

lemma try_catch_throw: "try_catch (throw e) h = h e"
  by (simp add: try_catch_def throw_def split: prod.splits)

lemma try_catch_returns: "snd r = None \<Longrightarrow> try_catch r h = r"
  by (cases r) (simp add: try_catch_def)

subsection \<open>Token extraction\<close>

lemma truthy_js_and_get: "truthy (js_and section (get section k)) = truthy (field_of section k)"
  by (simp add: js_and_def field_of_def)

lemma js_and_get_truthy:
  "truthy (field_of section k) \<Longrightarrow> js_and section (get section k) = field_of section k"
  by (simp add: js_and_def field_of_def split: if_splits)

lemma first_of_two:
  "(case List.find truthy [field_read inherited a k, field_read inherited b k] of
      Some v \<Rightarrow> js_or (js_and a (lookup inherited a k)) (js_and b (lookup inherited b k)) = v
    | None \<Rightarrow>
        \<not> truthy (js_or (js_and a (lookup inherited a k)) (js_and b (lookup inherited b k))))"
  by (simp add: js_or_def js_and_def field_read_def)

lemma first_of_three:
  "(case List.find truthy [field_of a k, field_of b k, field_of c k] of
      Some v \<Rightarrow> js_or (js_or (js_and a (get a k)) (js_and b (get b k))) (js_and c (get c k)) = v
    | None \<Rightarrow> \<not> truthy (js_or (js_or (js_and a (get a k)) (js_and b (get b k))) (js_and c (get c k))))"
  by (simp add: js_or_def truthy_js_and_get js_and_get_truthy)

lemma accessToken_of_first:
  "(case List.find truthy [field_read inherited (req_body req) (accessTokenField s),
                           field_read inherited (req_query req) (accessTokenField s)] of
      Some v \<Rightarrow> accessToken_of inherited s req = v
    | None \<Rightarrow> \<not> truthy (accessToken_of inherited s req))"
  unfolding accessToken_of_def by (rule first_of_two)

lemma refreshToken_of_first:
  "(case List.find truthy [field_read inherited (req_body req) (refreshTokenField s),
                           field_read inherited (req_query req) (refreshTokenField s)] of
      Some v \<Rightarrow> refreshToken_of inherited s req = v
    | None \<Rightarrow> \<not> truthy (refreshToken_of inherited s req))"
  unfolding refreshToken_of_def by (rule first_of_two)

lemma accessToken_of_legacy_first:
  "(case List.find truthy [field_of (req_body req) ''access_token'',
                           field_of (req_query req) ''access_token'',
                           field_of (req_headers req) ''access_token''] of
      Some v \<Rightarrow> accessToken_of_legacy req = v
    | None \<Rightarrow> \<not> truthy (accessToken_of_legacy req))"
  unfolding accessToken_of_legacy_def by (rule first_of_three)

lemma refreshToken_of_legacy_first:
  "(case List.find truthy [field_of (req_body req) ''refresh_token'',
                           field_of (req_query req) ''refresh_token'',
                           field_of (req_headers req) ''refresh_token''] of
      Some v \<Rightarrow> refreshToken_of_legacy req = v
    | None \<Rightarrow> \<not> truthy (refreshToken_of_legacy req))"
  unfolding refreshToken_of_legacy_def by (rule first_of_three)

text \<open>With an access token, \<open>authenticate\<close> goes on to the transport.\<close>

lemma authenticate_proceeds:
  "truthy (accessToken_of inherited s req) \<Longrightarrow>
     authenticate inherited JSON_parse s req =
       oauth2_get s (profileURL s) (accessToken_of inherited s req)
         (userProfile_callback JSON_parse
            (authenticate_callback s req (accessToken_of inherited s req) (refreshToken_of inherited s req)))"
  by (simp add: authenticate_def loadUserProfile_def userProfile_def Let_def)

lemma authenticate_legacy_proceeds:
  "truthy (accessToken_of_legacy req) \<Longrightarrow>
     authenticate_legacy JSON_parse l req =
       oauth2_get l (profileURL l) (accessToken_of_legacy req)
         (userProfile_callback_legacy JSON_parse
            (authenticate_callback_legacy l req (accessToken_of_legacy req)
               (refreshToken_of_legacy req)))"
  by (simp add: authenticate_legacy_def loadUserProfile_legacy_def userProfile_legacy_def Let_def)

lemma authenticate_callback_error:
  "truthy error \<Longrightarrow>
     authenticate_callback s req accessToken refreshToken error profile = ([Error error], None)"
  by (simp add: authenticate_callback_def this_error_def)

lemma authenticate_callback_legacy_error:
  "truthy error \<Longrightarrow>
     authenticate_callback_legacy l req accessToken refreshToken error profile =
       ([Error error], None)"
  by (simp add: authenticate_callback_legacy_def this_error_def)

subsection \<open>The completion and the callback of \<open>authenticate\<close>\<close>

lemma verified_returns:
  "snd (verified error user info) = None" "snd (verified_legacy error user info) = None"
  by (simp_all add: verified_def verified_legacy_def this_error_def this_fail_def this_success_def)

text \<open>
  A verify function that completes at once through its last argument makes the callback of
  \<open>authenticate\<close> run the completion.
\<close>

lemma authenticate_callback_completes:
  assumes "\<And>args next. verify s (args @ [AFun next]) = next error user info"
  shows "authenticate_callback s req accessToken refreshToken JNull profile =
           verified error user info"
proof -
  have "verify s ([AReq req, AVal accessToken, AVal refreshToken, AVal profile] @ [AFun verified]) =
          verified error user info"
    and "verify s ([AVal accessToken, AVal refreshToken, AVal profile] @ [AFun verified]) =
          verified error user info"
    by (rule assms)+
  then show ?thesis
    by (simp add: authenticate_callback_def)
qed

lemma authenticate_callback_legacy_completes:
  assumes "\<And>args next. verify l (args @ [AFun next]) = next error user info"
  shows "authenticate_callback_legacy l req accessToken refreshToken JNull profile =
           verified_legacy error user info"
proof -
  have "verify l ([AReq req, AVal accessToken, AVal refreshToken, AVal profile] @
                  [AFun verified_legacy]) = verified_legacy error user info"
    and "verify l ([AVal accessToken, AVal refreshToken, AVal profile] @ [AFun verified_legacy]) =
          verified_legacy error user info"
    by (rule assms)+
  then show ?thesis
    by (simp add: authenticate_callback_legacy_def)
qed

subsection \<open>Splitting a name\<close>

lemma split_char_unfold:
  "split_char sep s =
     takeWhile (\<lambda>c. c \<noteq> sep) s #
       (if sep \<in> set s then split_char sep (tl (dropWhile (\<lambda>c. c \<noteq> sep) s)) else [])"
proof (induction s)
  case Nil
  show ?case by simp
next
  case (Cons c cs)
  show ?case
  proof (cases "c = sep")
    case True
    then show ?thesis by simp
  next
    case False
    then show ?thesis
      using Cons.IH by (simp split: list.splits)
  qed
qed

lemma js_split_2:
  "js_split s sep 2 =
     takeWhile (\<lambda>c. c \<noteq> sep) s #
       (if sep \<in> set s
        then [takeWhile (\<lambda>c. c \<noteq> sep) (tl (dropWhile (\<lambda>c. c \<noteq> sep) s))]
        else [])"
proof -
  let ?rest = "tl (dropWhile (\<lambda>c. c \<noteq> sep) s)"
  have outer: "split_char sep s =
      takeWhile (\<lambda>c. c \<noteq> sep) s # (if sep \<in> set s then split_char sep ?rest else [])"
    by (rule split_char_unfold)
  obtain ps where inner: "split_char sep ?rest = takeWhile (\<lambda>c. c \<noteq> sep) ?rest # ps"
    using split_char_unfold [of sep ?rest] by blast
  show ?thesis
    unfolding js_split_def by (subst outer) (simp add: inner numeral_2_eq_2)
qed

lemma name_part_string:
  "s \<noteq> [] \<Longrightarrow>
     name_part (JStr s) 0 = Inr (JStr (takeWhile (\<lambda>c. c \<noteq> CHR '' '') s)) \<and>
     name_part (JStr s) (Suc 0) =
       Inr (if CHR '' '' \<in> set s
            then JStr (takeWhile (\<lambda>c. c \<noteq> CHR '' '') (tl (dropWhile (\<lambda>c. c \<noteq> CHR '' '') s)))
            else JUndefined)"
  by (simp add: name_part_def js_split_2 piece_def)

lemma name_part_falsy: "\<not> truthy v \<Longrightarrow> name_part v i = Inr (JStr [])"
  by (simp add: name_part_def)

text \<open>
  A full name that is truthy and not a string (a number, \<open>true\<close>, an object, an array) has
  no \<open>split\<close> method: no profile is built.
\<close>

lemma profile_object_throws:
  "nullish json \<or> (truthy (get json ''full_name'') \<and> (\<forall>s. get json ''full_name'' \<noteq> JStr s)) \<Longrightarrow>
     profile_object body json = Inl JTypeError"
  by (cases "get json ''full_name''") (auto simp: profile_object_def name_part_def)

subsection \<open>The profile callback\<close>

lemma profile_object_legacy_eq: "profile_object_legacy body json = profile_object body json"
  by (simp add: profile_object_legacy_def profile_object_def)

lemma profile_object_fixture:
  "profile_object body fixture_json =
     Inr (JObj
       [(''provider'', JStr ''soundcloud''),
        (''id'', JStr ''3207''),
        (''username'', JUndefined),
        (''displayName'', JStr ''Johannes Wagener''),
        (''name'', JObj [(''familyName'', JStr ''Wagener''), (''givenName'', JStr ''Johannes'')]),
        (''emails'', JArr []),
        (''photos'', JArr [JObj [(''value'', JStr ''http://example/img.jpg'')]]),
        (''_raw'', body),
        (''_json'', fixture_json)])"
  by (simp add: profile_object_def fixture_json_def name_part_def js_split_def piece_def js_or_def)

lemma userProfile_callback_parsed:
  "\<not> truthy error \<Longrightarrow> JSON_parse body = Inr json \<Longrightarrow> profile_object body json = Inr profile \<Longrightarrow>
     userProfile_callback JSON_parse done error body res =
       try_catch (done JNull profile) (\<lambda>e. done e JUndefined)"
  by (simp add: userProfile_callback_def)

lemma userProfile_callback_legacy_parsed:
  "\<not> truthy error \<Longrightarrow> JSON_parse body = Inr json \<Longrightarrow> profile_object body json = Inr profile \<Longrightarrow>
     userProfile_callback_legacy JSON_parse done error body res =
       try_catch (done JNull profile) (\<lambda>e. done e JUndefined)"
  by (simp add: userProfile_callback_legacy_def profile_object_legacy_eq)

lemma userProfile_callback_unparseable:
  "\<not> truthy error \<Longrightarrow> JSON_parse body = Inl message \<Longrightarrow>
     userProfile_callback JSON_parse done error body res = done (JSyntaxError message) JUndefined"
  by (simp add: userProfile_callback_def try_catch_throw)

lemma userProfile_callback_legacy_unparseable:
  "\<not> truthy error \<Longrightarrow> JSON_parse body = Inl message \<Longrightarrow>
     userProfile_callback_legacy JSON_parse done error body res =
       done (JSyntaxError message) JUndefined"
  by (simp add: userProfile_callback_legacy_def try_catch_throw)

text \<open>
  After a successful retrieval \<open>authenticate\<close> is the run of its callback on the profile,
  inside the \<open>try\<close> block of \<open>userProfile\<close>.
\<close>

lemma authenticate_retrieved:
  assumes "\<And>token next. oauth2_get s (profileURL s) token next = next error body res"
    and "\<not> truthy error"
    and "JSON_parse body = Inr json"
    and "profile_object body json = Inr profile"
    and "truthy (accessToken_of inherited s req)"
  shows "authenticate inherited JSON_parse s req =
      try_catch
        (authenticate_callback s req (accessToken_of inherited s req) (refreshToken_of inherited s req) JNull profile)
        (\<lambda>e. authenticate_callback s req (accessToken_of inherited s req) (refreshToken_of inherited s req)
                e JUndefined)"
  using assms(2-5) by (simp add: authenticate_proceeds assms(1) userProfile_callback_parsed)

lemma authenticate_legacy_retrieved:
  assumes "\<And>token next. oauth2_get l (profileURL l) token next = next error body res"
    and "\<not> truthy error"
    and "JSON_parse body = Inr json"
    and "profile_object body json = Inr profile"
    and "truthy (accessToken_of_legacy req)"
  shows "authenticate_legacy JSON_parse l req =
      try_catch
        (authenticate_callback_legacy l req (accessToken_of_legacy req)
           (refreshToken_of_legacy req) JNull profile)
        (\<lambda>e. authenticate_callback_legacy l req (accessToken_of_legacy req)
                (refreshToken_of_legacy req) e JUndefined)"
  using assms(2-5)
  by (simp add: authenticate_legacy_proceeds assms(1) userProfile_callback_legacy_parsed)

text \<open>
  The legacy variant implements the minimal policy of the specification (4.3 a): every
  transport error is wrapped uniformly.
\<close>

lemma userProfile_callback_legacy_transport_error:
  "truthy error \<Longrightarrow>
     userProfile_callback_legacy JSON_parse done error body res =
       done (JInternalOAuthError (JStr ''Failed to fetch user profile'') error) JUndefined"
  by (simp add: userProfile_callback_legacy_def)

text \<open>
  On a transport error the class-based callback hands one error, and no profile, to a
  \<open>done\<close> that returns normally, and the error does not depend on \<open>done\<close>.
\<close>

lemma userProfile_callback_transport_error:
  assumes "truthy error"
  shows "\<exists>err. \<forall>done. (\<forall>a b. snd (done a b) = None) \<longrightarrow>
      userProfile_callback JSON_parse done error body res = done err JUndefined"
proof (cases "JSON_parse (get error ''data'')")
  case (Inl message)
  with assms show ?thesis
    by (intro exI [of _ "JInternalOAuthError (JStr ''Failed to fetch user profile'') error"])
       (simp add: userProfile_callback_def try_catch_throw)
next
  case (Inr errorJSON)
  show ?thesis
  proof (cases "nullish errorJSON \<or> nullish (get errorJSON ''errors'') \<or>
      nullish (get0 (get errorJSON ''errors''))")
    case True
    with assms Inr show ?thesis
      by (intro exI [of _ "JInternalOAuthError (JStr ''Failed to fetch user profile'') error"])
         (auto simp: userProfile_callback_def try_catch_throw)
  next
    case False
    with assms Inr show ?thesis
      by (intro exI [of _ "JInternalOAuthError
            (get (get0 (get errorJSON ''errors'')) ''error_message'') (get error ''statusCode'')"])
         (auto simp: userProfile_callback_def try_catch_returns)
  qed
qed

text \<open>A profile that was built has the fields of the object literal.\<close>

lemma profile_object_fields:
  assumes "profile_object body json = Inr profile"
  shows "get profile ''provider'' = JStr ''soundcloud''"
    and "get profile ''id'' = get json ''id''"
    and "get profile ''username'' = get json ''username''"
    and "get profile ''displayName'' = js_or (get json ''full_name'') (JStr [])"
    and "name_part (get json ''full_name'') 0 = Inr (get (get profile ''name'') ''givenName'')"
    and "name_part (get json ''full_name'') 1 = Inr (get (get profile ''name'') ''familyName'')"
    and "get profile ''emails'' = JArr []"
    and "get profile ''photos'' =
           JArr [JObj [(''value'', js_or (get json ''avatar_url'') (JStr []))]]"
    and "get profile ''_raw'' = body"
    and "get profile ''_json'' = json"
  using assms by (auto simp: profile_object_def split: if_splits sum.splits)

subsection \<open>The test doubles\<close>

lemma test_transport_delivers:
  "oauth2_get test_strategy (profileURL test_strategy) token next =
     next JNull (JStr fixture_text) JNull"
  "oauth2_get test_strategy_req (profileURL test_strategy_req) token next =
     next JNull (JStr fixture_text) JNull"
  "oauth2_get test_legacy_strategy (profileURL test_legacy_strategy) token next =
     next JNull (JStr fixture_text) JNull"
  "oauth2_get test_legacy_strategy_req (profileURL test_legacy_strategy_req) token next =
     next JNull (JStr fixture_text) JNull"
  "oauth2_get garbled_strategy (profileURL garbled_strategy) token next =
     next JNull (JStr ''not a JSON'') JNull"
  "oauth2_get garbled_legacy_strategy (profileURL garbled_legacy_strategy) token next =
     next JNull (JStr ''not a JSON'') JNull"
  "oauth2_get (failing_strategy error) (profileURL (failing_strategy error)) token next =
     next error JNull JNull"
  by (simp_all add: test_strategy_def test_strategy_req_def test_legacy_strategy_def
      test_legacy_strategy_req_def garbled_strategy_def garbled_legacy_strategy_def
      failing_strategy_def SoundCloudTokenStrategy_def SoundCloudTokenStrategy_legacy_def
      transport_stub_def)

lemma failing_legacy_delivers:
  "oauth2_get (failing_legacy_strategy error) (profileURL (failing_legacy_strategy error))
     token next = next error JNull JNull"
  by (simp add: failing_legacy_strategy_def SoundCloudTokenStrategy_legacy_def transport_stub_def)

lemma test_parse_fixture: "test_parse (JStr fixture_text) = Inr fixture_json"
  by (simp add: test_parse_def parse_table_def)

lemma test_parse_garbled: "test_parse (JStr ''not a JSON'') = Inl ''Unexpected token''"
  by (simp add: test_parse_def parse_table_def fixture_text_def)

lemma test_tokens:
  "accessToken_of object_prototype test_strategy_req body_request = JStr ''access_token''"
  "refreshToken_of object_prototype test_strategy_req body_request = JStr ''refresh_token''"
  "accessToken_of object_prototype test_strategy body_request = JStr ''access_token''"
  "refreshToken_of object_prototype test_strategy body_request = JStr ''refresh_token''"
  "accessToken_of object_prototype garbled_strategy body_request = JStr ''access_token''"
  "accessToken_of_legacy headers_request = JStr ''access_token''"
  "refreshToken_of_legacy headers_request = JStr ''refresh_token''"
  by (simp_all add: accessToken_of_def refreshToken_of_def accessToken_of_legacy_def
      refreshToken_of_legacy_def test_strategy_req_def test_strategy_def garbled_strategy_def
      body_request_def headers_request_def js_or_def js_and_def lookup_def
      SoundCloudTokenStrategy_def or_default_def no_options_def)

lemma test_collaborators:
  "passReqToCallback test_strategy_req = JBool True"
  "passReqToCallback test_strategy = JUndefined"
  "passReqToCallback test_legacy_strategy_req = JBool True"
  "passReqToCallback test_legacy_strategy = JUndefined"
  "verify test_strategy_req = verify_stub_req"
  "verify test_strategy = verify_stub"
  "verify test_legacy_strategy_req = verify_stub_req"
  "verify test_legacy_strategy = verify_stub"
  by (simp_all add: test_strategy_req_def test_strategy_def test_legacy_strategy_req_def
      test_legacy_strategy_def SoundCloudTokenStrategy_def SoundCloudTokenStrategy_legacy_def
      no_options_def)

lemma verify_stub_completes:
  "verify_stub_req [AReq r, AVal a, AVal b, AVal p, AFun next] =
     next JNull p (JObj [(''info'', JStr ''foo'')])"
  "verify_stub [AVal a, AVal b, AVal p, AFun next] = next JNull p (JObj [(''info'', JStr ''foo'')])"
  by (simp_all add: verify_stub_req_def verify_stub_def)

lemma test_done_error:
  "truthy e \<Longrightarrow> test_done e p = ([Error e], None)"
  by (simp add: test_done_def authenticate_callback_error)

lemma test_done_returns:
  "snd (test_done a b) = None" "snd (test_done_req a b) = None"
  by (simp_all add: test_done_def test_done_req_def authenticate_callback_def test_collaborators
      verify_stub_completes verified_returns this_error_def)

text \<open>
  The run of the repository's tests: with the tokens in the body, the stubbed transport and
  a verify function that accepts the profile, the class-based strategy signals success with
  the profile as user and \<open>{info: 'foo'}\<close>; so does the legacy strategy with the tokens in
  the headers.
\<close>

lemma authenticate_test_success:
  "authenticate object_prototype test_parse test_strategy body_request =
     ([Success (projr (profile_object (JStr fixture_text) fixture_json))
         (JObj [(''info'', JStr ''foo'')])], None)"
  "authenticate_legacy test_parse test_legacy_strategy headers_request =
     ([Success (projr (profile_object (JStr fixture_text) fixture_json))
         (JObj [(''info'', JStr ''foo'')])], None)"
proof -
  have falsy: "\<not> truthy JNull"
    by simp
  obtain p where p: "profile_object (JStr fixture_text) fixture_json = Inr p" and "truthy p"
    using profile_object_fixture [of "JStr fixture_text"] by simp
  have outcome: "verified JNull p i = ([Success p i], None)"
    "verified_legacy JNull p i = ([Success p i], None)" for i
    using \<open>truthy p\<close> by (simp_all add: verified_def verified_legacy_def this_success_def)
  have parsed: "userProfile_callback test_parse k JNull (JStr fixture_text) JNull =
      try_catch (k JNull p) (\<lambda>e. k e JUndefined)" for k
    using falsy test_parse_fixture p by (rule userProfile_callback_parsed)
  have parsed_legacy: "userProfile_callback_legacy test_parse k JNull (JStr fixture_text) JNull =
      try_catch (k JNull p) (\<lambda>e. k e JUndefined)" for k
    using falsy test_parse_fixture p by (rule userProfile_callback_legacy_parsed)
  show "authenticate object_prototype test_parse test_strategy body_request =
     ([Success (projr (profile_object (JStr fixture_text) fixture_json))
         (JObj [(''info'', JStr ''foo'')])], None)"
    by (simp add: authenticate_proceeds test_tokens test_transport_delivers parsed p
        authenticate_callback_def test_collaborators verify_stub_completes outcome
        try_catch_returns)
  show "authenticate_legacy test_parse test_legacy_strategy headers_request =
     ([Success (projr (profile_object (JStr fixture_text) fixture_json))
         (JObj [(''info'', JStr ''foo'')])], None)"
    by (simp add: authenticate_legacy_proceeds test_tokens test_transport_delivers parsed_legacy
        p authenticate_callback_legacy_def test_collaborators verify_stub_completes outcome
        try_catch_returns)
qed

section \<open>The claims\<close>

subsection \<open>The completion of the verify function\<close>

text \<open>
  C1: whenever the completion \<open>verified\<close> is called with \<open>(error, user, info)\<close>, in
  either variant: a present (truthy) error is signalled unchanged as the error outcome; with
  no error and a falsy user the fail outcome is signalled with \<open>info\<close> as its reason;
  otherwise the success outcome is signalled with \<open>(user, info)\<close>. Each time it is the
  only event and nothing is thrown. And this is what \<open>authenticate\<close> signals: after a
  successful retrieval, with a verify function that completes at once with \<open>(error, user,
  info)\<close>, the run of \<open>authenticate\<close> is the run of the completion.
\<close>

theorem verified_outcome:
  "(truthy error \<longrightarrow>
      verified error user info = ([Error error], None) \<and>
      verified_legacy error user info = ([Error error], None)) \<and>
   (\<not> truthy error \<and> \<not> truthy user \<longrightarrow>
      verified error user info = ([Fail info], None) \<and>
      verified_legacy error user info = ([Fail info], None)) \<and>
   (\<not> truthy error \<and> truthy user \<longrightarrow>
      verified error user info = ([Success user info], None) \<and>
      verified_legacy error user info = ([Success user info], None)) \<and>
   ((\<forall>token next. oauth2_get s (profileURL s) token next = next retrieval_error body res) \<and>
    \<not> truthy retrieval_error \<and> JSON_parse body = Inr json \<and>
    profile_object body json = Inr profile \<and> truthy (accessToken_of inherited s req) \<and>
    (\<forall>args next. verify s (args @ [AFun next]) = next error user info) \<longrightarrow>
      authenticate inherited JSON_parse s req = verified error user info) \<and>
   ((\<forall>token next. oauth2_get l (profileURL l) token next = next retrieval_error body res) \<and>
    \<not> truthy retrieval_error \<and> JSON_parse body = Inr json \<and>
    profile_object body json = Inr profile \<and> truthy (accessToken_of_legacy req) \<and>
    (\<forall>args next. verify l (args @ [AFun next]) = next error user info) \<longrightarrow>
      authenticate_legacy JSON_parse l req = verified_legacy error user info)"
proof (intro conjI impI)
  assume a: "(\<forall>token next. oauth2_get s (profileURL s) token next = next retrieval_error body res) \<and>
    \<not> truthy retrieval_error \<and> JSON_parse body = Inr json \<and>
    profile_object body json = Inr profile \<and> truthy (accessToken_of inherited s req) \<and>
    (\<forall>args next. verify s (args @ [AFun next]) = next error user info)"
  then have "authenticate inherited JSON_parse s req =
      try_catch
        (authenticate_callback s req (accessToken_of inherited s req) (refreshToken_of inherited s req) JNull profile)
        (\<lambda>e. authenticate_callback s req (accessToken_of inherited s req) (refreshToken_of inherited s req)
                e JUndefined)"
    by (intro authenticate_retrieved [where error = retrieval_error and body = body and res = res
          and json = json]) simp_all
  with a show "authenticate inherited JSON_parse s req = verified error user info"
    by (simp add: authenticate_callback_completes verified_returns try_catch_returns)
next
  assume a: "(\<forall>token next. oauth2_get l (profileURL l) token next = next retrieval_error body res) \<and>
    \<not> truthy retrieval_error \<and> JSON_parse body = Inr json \<and>
    profile_object body json = Inr profile \<and> truthy (accessToken_of_legacy req) \<and>
    (\<forall>args next. verify l (args @ [AFun next]) = next error user info)"
  then have "authenticate_legacy JSON_parse l req =
      try_catch
        (authenticate_callback_legacy l req (accessToken_of_legacy req)
           (refreshToken_of_legacy req) JNull profile)
        (\<lambda>e. authenticate_callback_legacy l req (accessToken_of_legacy req)
                (refreshToken_of_legacy req) e JUndefined)"
    by (intro authenticate_legacy_retrieved [where error = retrieval_error and body = body
          and res = res and json = json]) simp_all
  with a show "authenticate_legacy JSON_parse l req = verified_legacy error user info"
    by (simp add: authenticate_callback_legacy_completes verified_returns try_catch_returns)
qed (simp_all add: verified_def verified_legacy_def this_error_def this_fail_def this_success_def)

text \<open>
  C1 at three completions: the class-based strategy with an application that rejects the
  user signals fail with the application's info; the legacy strategy with an application
  that reports an error signals that error; the user and info of the repository's tests
  give success.
\<close>

theorem verified_outcome_witness:
  "authenticate object_prototype test_parse rejecting_strategy body_request =
     ([Fail (JObj [(''message'', JStr ''no such user'')])], None) \<and>
   authenticate_legacy test_parse broken_legacy_strategy headers_request =
     ([Error (JStr ''database down'')], None) \<and>
   verified JNull (JObj [(''id'', JStr ''3207'')]) (JObj [(''info'', JStr ''foo'')]) =
     ([Success (JObj [(''id'', JStr ''3207'')]) (JObj [(''info'', JStr ''foo'')])], None)"
proof -
  have profile: "profile_object (JStr fixture_text) fixture_json =
      Inr (projr (profile_object (JStr fixture_text) fixture_json))"
    by (simp add: profile_object_fixture)
  have stubs:
    "oauth2_get rejecting_strategy (profileURL rejecting_strategy) token next =
       next JNull (JStr fixture_text) JNull"
    "oauth2_get broken_legacy_strategy (profileURL broken_legacy_strategy) token next =
       next JNull (JStr fixture_text) JNull"
    "verify rejecting_strategy (args @ [AFun k]) =
       k JNull (JBool False) (JObj [(''message'', JStr ''no such user'')])"
    "verify broken_legacy_strategy (args @ [AFun k]) = k (JStr ''database down'') JUndefined JUndefined"
    "accessToken_of object_prototype rejecting_strategy body_request = JStr ''access_token''"
    for token "next" args k
    by (simp_all add: rejecting_strategy_def broken_legacy_strategy_def SoundCloudTokenStrategy_def
        SoundCloudTokenStrategy_legacy_def transport_stub_def completing_verify_def
        accessToken_of_def body_request_def js_or_def js_and_def lookup_def or_default_def
        no_options_def)
  note verified_outcome [where error = JNull and user = "JBool False"
      and info = "JObj [(''message'', JStr ''no such user'')]" and s = rejecting_strategy
      and l = test_legacy_strategy and retrieval_error = JNull and body = "JStr fixture_text"
      and res = JNull and JSON_parse = test_parse and json = fixture_json
      and profile = "projr (profile_object (JStr fixture_text) fixture_json)"
      and req = body_request]
    verified_outcome [where error = "JStr ''database down''" and user = JUndefined
      and info = JUndefined and s = test_strategy
      and l = broken_legacy_strategy and retrieval_error = JNull and body = "JStr fixture_text"
      and res = JNull and JSON_parse = test_parse and json = fixture_json
      and profile = "projr (profile_object (JStr fixture_text) fixture_json)"
      and req = headers_request]
    verified_outcome [where error = JNull and user = "JObj [(''id'', JStr ''3207'')]"
      and info = "JObj [(''info'', JStr ''foo'')]" and s = test_strategy
      and l = test_legacy_strategy and retrieval_error = JNull and body = "JStr fixture_text"
      and res = JNull and JSON_parse = test_parse and json = fixture_json
      and profile = "projr (profile_object (JStr fixture_text) fixture_json)"
      and req = headers_request]
  then show ?thesis
    using profile by (simp add: stubs test_parse_fixture test_tokens)
qed

subsection \<open>A request without access token\<close>

text \<open>
  C2, as stated, fails in two ways. On the legacy variant: a legacy strategy configured with
  the access token field \<open>token\<close> answers a request that has no token anywhere with the
  message \<open>You should provide access_token\<close>, not \<open>You should provide token\<close>; the
  legacy constructor reads no field name from its options. On the class-based variant: with
  the field configured as \<open>constructor\<close> and the body \<open>{}\<close>, which holds no such field,
  the read \<open>req.body['constructor']\<close> finds the inherited method, so the strategy does
  not fail the request and goes on to the transport and the verify function.
\<close>

theorem legacy_fail_message_ignores_configured_field:
  "authenticate_legacy test_parse renamed_legacy_strategy empty_request =
     ([Fail (JObj [(''message'', JStr ''You should provide access_token'')])], None) \<and>
   authenticate_legacy test_parse renamed_legacy_strategy empty_request \<noteq>
     ([Fail (JObj [(''message'', JStr ''You should provide token'')])], None) \<and>
   field_of (req_body bare_request) ''constructor'' = JUndefined \<and>
   field_of (req_query bare_request) ''constructor'' = JUndefined \<and>
   authenticate object_prototype test_parse constructor_strategy bare_request =
     ([Success (projr (profile_object (JStr fixture_text) fixture_json))
         (JObj [(''info'', JStr ''foo'')])], None)"
proof -
  have falsy: "\<not> truthy JNull"
    by simp
  obtain p where p: "profile_object (JStr fixture_text) fixture_json = Inr p" and "truthy p"
    using profile_object_fixture [of "JStr fixture_text"] by simp
  have parsed: "userProfile_callback test_parse k JNull (JStr fixture_text) JNull =
      try_catch (k JNull p) (\<lambda>e. k e JUndefined)" for k
    using falsy test_parse_fixture p by (rule userProfile_callback_parsed)
  have token: "accessToken_of object_prototype constructor_strategy bare_request =
      JFunction ''Object''"
    by (simp add: accessToken_of_def constructor_strategy_def bare_request_def js_or_def
        js_and_def lookup_def object_prototype_def SoundCloudTokenStrategy_def or_default_def
        no_options_def)
  have stubs:
    "oauth2_get constructor_strategy (profileURL constructor_strategy) t k =
       k JNull (JStr fixture_text) JNull"
    "verify constructor_strategy = verify_stub"
    "\<not> truthy (passReqToCallback constructor_strategy)" for t k
    by (simp_all add: constructor_strategy_def SoundCloudTokenStrategy_def transport_stub_def
        no_options_def)
  have "authenticate object_prototype test_parse constructor_strategy bare_request =
      ([Success p (JObj [(''info'', JStr ''foo'')])], None)"
    using \<open>truthy p\<close>
    by (simp add: authenticate_proceeds token stubs parsed authenticate_callback_def
        verify_stub_completes verified_def this_success_def try_catch_returns)
  then show ?thesis
    using p
    by (simp add: authenticate_legacy_def accessToken_of_legacy_def empty_request_def js_or_def
        js_and_def this_fail_def field_of_def bare_request_def)
qed

text \<open>
  C2, amended: when reading the access token field gives an empty or absent value in every
  consulted section, \<open>authenticate\<close> signals the fail outcome and nothing else, whatever
  the transport and the verify function are (neither is called). The class-based variant
  consults body and query for the configured field, by a property read, so a name that a
  section inherits from its prototype counts as present; it gives the reason \<open>{message:
  "You should provide <accessTokenField>"}\<close>. The legacy variant consults body, query and
  headers for the fixed name \<open>access_token\<close>, whatever was configured, and gives the
  reason \<open>{message: "You should provide access_token"}\<close>.
\<close>

theorem missing_access_token_fails:
  "(\<not> truthy (field_read inherited (req_body req) (accessTokenField s)) \<and>
    \<not> truthy (field_read inherited (req_query req) (accessTokenField s)) \<longrightarrow>
      authenticate inherited JSON_parse (s\<lparr>verify := v, oauth2_get := g\<rparr>) req =
        ([Fail (JObj [(''message'', JStr (''You should provide '' @ accessTokenField s))])], None)) \<and>
   (\<not> truthy (field_of (req_body req) ''access_token'') \<and>
    \<not> truthy (field_of (req_query req) ''access_token'') \<and>
    \<not> truthy (field_of (req_headers req) ''access_token'') \<longrightarrow>
      authenticate_legacy JSON_parse (l\<lparr>verify := v, oauth2_get := g\<rparr>) req =
        ([Fail (JObj [(''message'', JStr ''You should provide access_token'')])], None))"
proof (intro conjI impI)
  assume "\<not> truthy (field_read inherited (req_body req) (accessTokenField s)) \<and>
    \<not> truthy (field_read inherited (req_query req) (accessTokenField s))"
  then have "\<not> truthy (accessToken_of inherited (s\<lparr>verify := v, oauth2_get := g\<rparr>) req)"
    using accessToken_of_first [where inherited = inherited and req = req
        and s = "s\<lparr>verify := v, oauth2_get := g\<rparr>"] by simp
  then show "authenticate inherited JSON_parse (s\<lparr>verify := v, oauth2_get := g\<rparr>) req =
      ([Fail (JObj [(''message'', JStr (''You should provide '' @ accessTokenField s))])], None)"
    by (simp add: authenticate_def this_fail_def Let_def)
next
  assume "\<not> truthy (field_of (req_body req) ''access_token'') \<and>
    \<not> truthy (field_of (req_query req) ''access_token'') \<and>
    \<not> truthy (field_of (req_headers req) ''access_token'')"
  then have "\<not> truthy (accessToken_of_legacy req)"
    using accessToken_of_legacy_first [where req = req] by simp
  then show "authenticate_legacy JSON_parse (l\<lparr>verify := v, oauth2_get := g\<rparr>) req =
      ([Fail (JObj [(''message'', JStr ''You should provide access_token'')])], None)"
    by (simp add: authenticate_legacy_def this_fail_def Let_def)
qed

text \<open>
  C2, amended, at the empty request: under the default field name both variants ask for
  \<open>access_token\<close>.
\<close>

theorem missing_access_token_fails_witness:
  "authenticate object_prototype test_parse test_strategy empty_request =
     ([Fail (JObj [(''message'', JStr ''You should provide access_token'')])], None) \<and>
   authenticate_legacy test_parse test_legacy_strategy empty_request =
     ([Fail (JObj [(''message'', JStr ''You should provide access_token'')])], None)"
  using missing_access_token_fails [where req = empty_request and s = test_strategy
      and l = test_legacy_strategy and JSON_parse = test_parse and v = verify_stub
      and g = "transport_stub JNull (JStr fixture_text)" and inherited = object_prototype]
  by (simp add: field_of_def field_read_def test_strategy_def test_legacy_strategy_def
      empty_request_def SoundCloudTokenStrategy_def SoundCloudTokenStrategy_legacy_def
      or_default_def no_options_def)

subsection \<open>Token extraction\<close>

text \<open>
  C3, as stated, fails in two ways. On the legacy variant: with the access token field
  configured as \<open>token\<close> and a request whose body carries \<open>token = "T"\<close>, the first
  non-empty value of the configured field is \<open>"T"\<close>, and the class-based variant extracts
  it; the legacy variant extracts nothing and fails the request. On the class-based
  variant: with the field configured as \<open>constructor\<close> and the body \<open>{}\<close>, no section
  holds a value for the field, yet the extracted token is not absent: it is the inherited
  method that the read \<open>req.body['constructor']\<close> finds.
\<close>

theorem legacy_extraction_ignores_configured_field:
  "List.find truthy [field_of (req_body renamed_request) ''token'',
                     field_of (req_query renamed_request) ''token'',
                     field_of (req_headers renamed_request) ''token''] = Some (JStr ''T'') \<and>
   accessToken_of object_prototype renamed_strategy renamed_request = JStr ''T'' \<and>
   accessToken_of_legacy renamed_request = JUndefined \<and>
   authenticate_legacy test_parse renamed_legacy_strategy renamed_request =
     ([Fail (JObj [(''message'', JStr ''You should provide access_token'')])], None) \<and>
   List.find truthy [field_of (req_body bare_request) ''constructor'',
                     field_of (req_query bare_request) ''constructor''] = None \<and>
   accessToken_of object_prototype constructor_strategy bare_request = JFunction ''Object''"
  by (simp add: authenticate_legacy_def accessToken_of_legacy_def accessToken_of_def js_or_def
      js_and_def this_fail_def field_of_def lookup_def object_prototype_def renamed_request_def
      renamed_strategy_def bare_request_def constructor_strategy_def SoundCloudTokenStrategy_def
      or_default_def no_options_def)

text \<open>
  C3, amended: the access token and the refresh token are each the first non-empty (truthy)
  value in the order body, then query, of reading the configured field in the class-based
  variant, where a read gives the section's own property or else what the section inherits
  from its prototype; and in the order body, query, headers of the fixed names
  \<open>access_token\<close> and \<open>refresh_token\<close> in the legacy variant, whatever was configured.
  When no read gives a non-empty value the extracted token is empty or absent. A missing
  refresh token is no error: with an access token, \<open>authenticate\<close> goes on to the profile
  retrieval whatever the refresh token is.
\<close>

theorem token_extraction_precedence:
  "(case List.find truthy [field_read inherited (req_body req) (accessTokenField s),
                           field_read inherited (req_query req) (accessTokenField s)] of
      Some v \<Rightarrow> accessToken_of inherited s req = v
    | None \<Rightarrow> \<not> truthy (accessToken_of inherited s req)) \<and>
   (case List.find truthy [field_read inherited (req_body req) (refreshTokenField s),
                           field_read inherited (req_query req) (refreshTokenField s)] of
      Some v \<Rightarrow> refreshToken_of inherited s req = v
    | None \<Rightarrow> \<not> truthy (refreshToken_of inherited s req)) \<and>
   (case List.find truthy [field_of (req_body req) ''access_token'',
                           field_of (req_query req) ''access_token'',
                           field_of (req_headers req) ''access_token''] of
      Some v \<Rightarrow> accessToken_of_legacy req = v
    | None \<Rightarrow> \<not> truthy (accessToken_of_legacy req)) \<and>
   (case List.find truthy [field_of (req_body req) ''refresh_token'',
                           field_of (req_query req) ''refresh_token'',
                           field_of (req_headers req) ''refresh_token''] of
      Some v \<Rightarrow> refreshToken_of_legacy req = v
    | None \<Rightarrow> \<not> truthy (refreshToken_of_legacy req)) \<and>
   (truthy (accessToken_of inherited s req) \<longrightarrow>
      authenticate inherited JSON_parse s req =
        oauth2_get s (profileURL s) (accessToken_of inherited s req)
          (userProfile_callback JSON_parse
             (authenticate_callback s req (accessToken_of inherited s req)
                (refreshToken_of inherited s req)))) \<and>
   (truthy (accessToken_of_legacy req) \<longrightarrow>
      authenticate_legacy JSON_parse l req =
        oauth2_get l (profileURL l) (accessToken_of_legacy req)
          (userProfile_callback_legacy JSON_parse
             (authenticate_callback_legacy l req (accessToken_of_legacy req)
                (refreshToken_of_legacy req))))"
  by (intro conjI impI accessToken_of_first refreshToken_of_first accessToken_of_legacy_first
      refreshToken_of_legacy_first authenticate_proceeds authenticate_legacy_proceeds)

text \<open>
  C3, amended, at a request with an empty access token in the body, \<open>Q\<close> in the query and
  \<open>H\<close> in the headers, and a refresh token \<open>R\<close> in the headers only: both variants take
  \<open>Q\<close>; the class-based variant has no refresh token, the legacy variant has \<open>R\<close>; both
  call the transport with \<open>Q\<close>.
\<close>

theorem token_extraction_precedence_witness:
  "accessToken_of object_prototype test_strategy mixed_request = JStr ''Q'' \<and>
   \<not> truthy (refreshToken_of object_prototype test_strategy mixed_request) \<and>
   accessToken_of_legacy mixed_request = JStr ''Q'' \<and>
   refreshToken_of_legacy mixed_request = JStr ''R'' \<and>
   authenticate object_prototype test_parse test_strategy mixed_request =
     transport_stub JNull (JStr fixture_text) ''https://api.soundcloud.com/me.json'' (JStr ''Q'')
       (userProfile_callback test_parse
          (authenticate_callback test_strategy mixed_request (JStr ''Q'')
             (refreshToken_of object_prototype test_strategy mixed_request))) \<and>
   authenticate_legacy test_parse test_legacy_strategy mixed_request =
     transport_stub JNull (JStr fixture_text) ''https://api.soundcloud.com/me.json'' (JStr ''Q'')
       (userProfile_callback_legacy test_parse
          (authenticate_callback_legacy test_legacy_strategy mixed_request (JStr ''Q'')
             (JStr ''R'')))"
  using token_extraction_precedence [where req = mixed_request and s = test_strategy
      and l = test_legacy_strategy and JSON_parse = test_parse and inherited = object_prototype]
  by (simp add: field_of_def field_read_def lookup_def object_prototype_def mixed_request_def
      test_strategy_def test_legacy_strategy_def SoundCloudTokenStrategy_def
      SoundCloudTokenStrategy_legacy_def or_default_def no_options_def)

subsection \<open>The canonical profile\<close>

text \<open>
  C4: when the transport delivers, without error, a body that parses to \<open>{id: "3207",
  full_name: "Johannes Wagener", avatar_url: "http://example/img.jpg"}\<close>, \<open>userProfile\<close>
  (in either variant) calls \<open>done(null, profile)\<close> with a profile whose provider is
  \<open>soundcloud\<close>, id \<open>3207\<close>, displayName \<open>Johannes Wagener\<close>, givenName \<open>Johannes\<close>,
  familyName \<open>Wagener\<close>, emails the empty sequence and photos the one-element sequence
  \<open>[{value: "http://example/img.jpg"}]\<close>. The call is inside the \<open>try\<close> block: should
  \<open>done\<close> throw, the exception is handed to \<open>done\<close> again.
\<close>

theorem userProfile_fixture_profile:
  assumes "\<And>next. oauth2_get s (profileURL s) accessToken next = next error body res"
    and "\<And>next. oauth2_get l (profileURL l) accessToken next = next error body res"
    and "\<not> truthy error"
    and "JSON_parse body = Inr fixture_json"
  shows "\<exists>profile.
      (\<forall>done. userProfile JSON_parse s accessToken done =
                try_catch (done JNull profile) (\<lambda>e. done e JUndefined) \<and>
              userProfile_legacy JSON_parse l accessToken done =
                try_catch (done JNull profile) (\<lambda>e. done e JUndefined)) \<and>
      get profile ''provider'' = JStr ''soundcloud'' \<and>
      get profile ''id'' = JStr ''3207'' \<and>
      get profile ''displayName'' = JStr ''Johannes Wagener'' \<and>
      get (get profile ''name'') ''givenName'' = JStr ''Johannes'' \<and>
      get (get profile ''name'') ''familyName'' = JStr ''Wagener'' \<and>
      get profile ''emails'' = JArr [] \<and>
      get profile ''photos'' = JArr [JObj [(''value'', JStr ''http://example/img.jpg'')]]"
proof -
  let ?p = "JObj
       [(''provider'', JStr ''soundcloud''),
        (''id'', JStr ''3207''),
        (''username'', JUndefined),
        (''displayName'', JStr ''Johannes Wagener''),
        (''name'', JObj [(''familyName'', JStr ''Wagener''), (''givenName'', JStr ''Johannes'')]),
        (''emails'', JArr []),
        (''photos'', JArr [JObj [(''value'', JStr ''http://example/img.jpg'')]]),
        (''_raw'', body),
        (''_json'', fixture_json)]"
  have p: "profile_object body fixture_json = Inr ?p"
    by (rule profile_object_fixture)
  have "userProfile JSON_parse s accessToken k =
          try_catch (k JNull ?p) (\<lambda>e. k e JUndefined)" for k
    unfolding userProfile_def assms(1)
    using assms(3,4) p by (rule userProfile_callback_parsed)
  moreover have "userProfile_legacy JSON_parse l accessToken k =
          try_catch (k JNull ?p) (\<lambda>e. k e JUndefined)" for k
    unfolding userProfile_legacy_def assms(2)
    using assms(3,4) p by (rule userProfile_callback_legacy_parsed)
  ultimately show ?thesis
    by (intro exI [of _ ?p]) simp
qed

text \<open>C4 with the stubbed transport of the tests delivering the example as JSON text.\<close>

theorem userProfile_fixture_profile_witness:
  "\<exists>profile.
      (\<forall>done. userProfile test_parse test_strategy (JStr ''accessToken'') done =
                try_catch (done JNull profile) (\<lambda>e. done e JUndefined) \<and>
              userProfile_legacy test_parse test_legacy_strategy (JStr ''accessToken'') done =
                try_catch (done JNull profile) (\<lambda>e. done e JUndefined)) \<and>
      get profile ''provider'' = JStr ''soundcloud'' \<and>
      get profile ''id'' = JStr ''3207'' \<and>
      get profile ''displayName'' = JStr ''Johannes Wagener'' \<and>
      get (get profile ''name'') ''givenName'' = JStr ''Johannes'' \<and>
      get (get profile ''name'') ''familyName'' = JStr ''Wagener'' \<and>
      get profile ''emails'' = JArr [] \<and>
      get profile ''photos'' = JArr [JObj [(''value'', JStr ''http://example/img.jpg'')]]"
proof -
  have "\<not> truthy JNull"
    by simp
  then show ?thesis
    using test_parse_fixture
    by (rule userProfile_fixture_profile [OF test_transport_delivers(1) test_transport_delivers(3)])
qed

text \<open>
  C5, as stated, fails: the name is not split at its first whitespace run into two parts.
  For the full name \<open>Johannes  Wagener\<close>, with two spaces, the part after the first
  whitespace run is \<open>Wagener\<close>, but the familyName of the profile is the empty string;
  for the one-word name \<open>Madonna\<close> there is no second part, the familyName is absent;
  and for the parsed JSON \<open>null\<close>, which has no full-name field, no profile is built at
  all: reading \<open>json.id\<close> throws.
\<close>

theorem name_split_not_on_whitespace_run:
  "snd (split_first_whitespace_run ''Johannes  Wagener'') = ''Wagener'' \<and>
   get (get (projr (profile_object (JStr []) (JObj [(''full_name'', JStr ''Johannes  Wagener'')])))
          ''name'') ''familyName'' = JStr [] \<and>
   get (get (projr (profile_object (JStr []) (JObj [(''full_name'', JStr ''Madonna'')])))
          ''name'') ''familyName'' = JUndefined \<and>
   profile_object (JStr ''null'') JNull = Inl JTypeError"
  by (simp add: split_first_whitespace_run_def is_whitespace_def profile_object_def name_part_def
      js_split_def piece_def js_or_def)

text \<open>
  C5, amended: for every parsed provider JSON other than \<open>null\<close>, in either variant: when
  the full name is a non-empty string, displayName is that string, givenName is its text
  before the first space character (U+0020), and familyName is its text between the first
  and the second space character (to the end when there is no second one), and is absent
  (\<open>undefined\<close>) when the full name contains no space; whenever the full-name field is
  absent or otherwise falsy, displayName, givenName and familyName are all the empty
  string.
\<close>

theorem profile_name_parts:
  "\<not> nullish json \<Longrightarrow>
     (\<forall>s. get json ''full_name'' = JStr s \<and> s \<noteq> [] \<longrightarrow>
        (\<exists>profile.
           profile_object body json = Inr profile \<and>
           profile_object_legacy body json = Inr profile \<and>
           get profile ''displayName'' = JStr s \<and>
           get (get profile ''name'') ''givenName'' = JStr (takeWhile (\<lambda>c. c \<noteq> CHR '' '') s) \<and>
           get (get profile ''name'') ''familyName'' =
             (if CHR '' '' \<in> set s
              then JStr (takeWhile (\<lambda>c. c \<noteq> CHR '' '')
                           (tl (dropWhile (\<lambda>c. c \<noteq> CHR '' '') s)))
              else JUndefined))) \<and>
     (\<not> truthy (get json ''full_name'') \<longrightarrow>
        (\<exists>profile.
           profile_object body json = Inr profile \<and>
           profile_object_legacy body json = Inr profile \<and>
           get profile ''displayName'' = JStr [] \<and>
           get (get profile ''name'') ''givenName'' = JStr [] \<and>
           get (get profile ''name'') ''familyName'' = JStr []))"
  by (auto simp: profile_object_def profile_object_legacy_def name_part_string name_part_falsy
      js_or_def)

text \<open>
  C5, amended, at three provider JSON values: a name of three words (the third is dropped),
  a name of one word (no familyName), and no full name at all.
\<close>

theorem profile_name_parts_witness:
  "(\<exists>profile.
      profile_object (JStr []) (JObj [(''full_name'', JStr ''Ann Marie Smith'')]) = Inr profile \<and>
      profile_object_legacy (JStr []) (JObj [(''full_name'', JStr ''Ann Marie Smith'')]) =
        Inr profile \<and>
      get profile ''displayName'' = JStr ''Ann Marie Smith'' \<and>
      get (get profile ''name'') ''givenName'' = JStr ''Ann'' \<and>
      get (get profile ''name'') ''familyName'' = JStr ''Marie'') \<and>
   (\<exists>profile.
      profile_object (JStr []) (JObj [(''full_name'', JStr ''Madonna'')]) = Inr profile \<and>
      profile_object_legacy (JStr []) (JObj [(''full_name'', JStr ''Madonna'')]) = Inr profile \<and>
      get profile ''displayName'' = JStr ''Madonna'' \<and>
      get (get profile ''name'') ''givenName'' = JStr ''Madonna'' \<and>
      get (get profile ''name'') ''familyName'' = JUndefined) \<and>
   (\<exists>profile.
      profile_object (JStr []) (JObj [(''id'', JStr ''3207'')]) = Inr profile \<and>
      profile_object_legacy (JStr []) (JObj [(''id'', JStr ''3207'')]) = Inr profile \<and>
      get profile ''displayName'' = JStr [] \<and>
      get (get profile ''name'') ''givenName'' = JStr [] \<and>
      get (get profile ''name'') ''familyName'' = JStr [])"
  using profile_name_parts [of "JObj [(''full_name'', JStr ''Ann Marie Smith'')]" "JStr []"]
    profile_name_parts [of "JObj [(''full_name'', JStr ''Madonna'')]" "JStr []"]
    profile_name_parts [of "JObj [(''id'', JStr ''3207'')]" "JStr []"]
  by simp

subsection \<open>Failures of the profile retrieval\<close>

text \<open>
  C6: when the transport delivers, without error, a body that is not valid JSON,
  \<open>userProfile\<close> (in either variant) calls \<open>done\<close> with the \<open>SyntaxError\<close> that
  \<open>JSON.parse\<close> threw, itself and not inside an \<open>InternalOAuthError\<close>, and with no
  profile; \<open>authenticate\<close>, for a request with an access token, then signals the error
  outcome with that \<open>SyntaxError\<close> and nothing else.
\<close>

theorem unparseable_body_raw_error:
  assumes "\<And>token next. oauth2_get s (profileURL s) token next = next error body res"
    and "\<And>token next. oauth2_get l (profileURL l) token next = next error body res"
    and "\<not> truthy error"
    and "JSON_parse body = Inl message"
  shows "userProfile JSON_parse s accessToken done = done (JSyntaxError message) JUndefined \<and>
         userProfile_legacy JSON_parse l accessToken done = done (JSyntaxError message) JUndefined \<and>
         (truthy (accessToken_of inherited s req) \<longrightarrow>
            authenticate inherited JSON_parse s req = ([Error (JSyntaxError message)], None)) \<and>
         (truthy (accessToken_of_legacy req) \<longrightarrow>
            authenticate_legacy JSON_parse l req = ([Error (JSyntaxError message)], None))"
proof (intro conjI impI)
  show "userProfile JSON_parse s accessToken done = done (JSyntaxError message) JUndefined"
    unfolding userProfile_def assms(1) using assms(3,4) by (rule userProfile_callback_unparseable)
  show "userProfile_legacy JSON_parse l accessToken done = done (JSyntaxError message) JUndefined"
    unfolding userProfile_legacy_def assms(2)
    using assms(3,4) by (rule userProfile_callback_legacy_unparseable)
  show "authenticate inherited JSON_parse s req = ([Error (JSyntaxError message)], None)"
    if "truthy (accessToken_of inherited s req)"
    using that assms(3,4)
    by (simp add: authenticate_proceeds assms(1) userProfile_callback_unparseable
        authenticate_callback_error)
  show "authenticate_legacy JSON_parse l req = ([Error (JSyntaxError message)], None)"
    if "truthy (accessToken_of_legacy req)"
    using that assms(3,4)
    by (simp add: authenticate_legacy_proceeds assms(2) userProfile_callback_legacy_unparseable
        authenticate_callback_legacy_error)
qed

text \<open>C6 with the transport of the tests that answers \<open>not a JSON\<close>.\<close>

theorem unparseable_body_raw_error_witness:
  "userProfile test_parse garbled_strategy (JStr ''accessToken'') test_done =
     test_done (JSyntaxError ''Unexpected token'') JUndefined \<and>
   userProfile_legacy test_parse garbled_legacy_strategy (JStr ''accessToken'') test_done =
     test_done (JSyntaxError ''Unexpected token'') JUndefined \<and>
   authenticate object_prototype test_parse garbled_strategy body_request =
     ([Error (JSyntaxError ''Unexpected token'')], None) \<and>
   authenticate_legacy test_parse garbled_legacy_strategy headers_request =
     ([Error (JSyntaxError ''Unexpected token'')], None)"
proof -
  have falsy: "\<not> truthy JNull"
    by simp
  note unparseable_body_raw_error [where s = garbled_strategy
      and l = garbled_legacy_strategy and error = JNull and body = "JStr ''not a JSON''"
      and res = JNull and JSON_parse = test_parse and message = "''Unexpected token''"
      and accessToken = "JStr ''accessToken''" and ?done = test_done and req = body_request,
      OF test_transport_delivers(5) test_transport_delivers(6) falsy test_parse_garbled]
    unparseable_body_raw_error [where s = garbled_strategy
      and l = garbled_legacy_strategy and error = JNull and body = "JStr ''not a JSON''"
      and res = JNull and JSON_parse = test_parse and message = "''Unexpected token''"
      and accessToken = "JStr ''accessToken''" and ?done = test_done and req = headers_request,
      OF test_transport_delivers(5) test_transport_delivers(6) falsy test_parse_garbled]
  then show ?thesis
    by (simp add: test_tokens)
qed

text \<open>
  C7, as stated, fails in two ways. The legacy \<open>userProfile\<close> never looks into the
  transport error: for a 401 answer whose data is the provider's error JSON, with the
  message \<open>401 - Unauthorized\<close>, it hands \<open>done\<close> the uniform wrap, not an error made
  of the provider's message and the status code. And the class-based \<open>userProfile\<close>
  hands \<open>done\<close> the uniform wrap also when the parse does not fail: for the data \<open>{}\<close>
  the parse succeeds, but reading \<open>errors[0]\<close> from the result throws.
\<close>

theorem legacy_transport_error_not_parsed:
  "error_parse (get provider_error ''data'') = Inr error_json \<and>
   userProfile_legacy error_parse (failing_legacy_strategy provider_error) (JStr ''accessToken'')
     test_done =
     ([Error (JInternalOAuthError (JStr ''Failed to fetch user profile'') provider_error)], None) \<and>
   userProfile_legacy error_parse (failing_legacy_strategy provider_error) (JStr ''accessToken'')
     test_done \<noteq>
     ([Error (JInternalOAuthError (JStr ''401 - Unauthorized'') (JNum (Finite 401)))], None) \<and>
   error_parse (get empty_data_error ''data'') = Inr (JObj []) \<and>
   userProfile error_parse (failing_strategy empty_data_error) (JStr ''accessToken'') test_done =
     ([Error (JInternalOAuthError (JStr ''Failed to fetch user profile'') empty_data_error)], None)"
proof -
  have "truthy provider_error" and "truthy empty_data_error"
    by (simp_all add: provider_error_def empty_data_error_def)
  then have
    "userProfile_legacy error_parse (failing_legacy_strategy provider_error) (JStr ''accessToken'')
       test_done =
       ([Error (JInternalOAuthError (JStr ''Failed to fetch user profile'') provider_error)], None)"
    "userProfile error_parse (failing_strategy empty_data_error) (JStr ''accessToken'') test_done =
       ([Error (JInternalOAuthError (JStr ''Failed to fetch user profile'') empty_data_error)],
        None)"
    by (simp_all add: userProfile_legacy_def userProfile_def failing_legacy_delivers
        test_transport_delivers userProfile_callback_legacy_transport_error
        userProfile_callback_def try_catch_throw test_done_error error_parse_def parse_table_def
        empty_data_error_def error_text_def)
  then show ?thesis
    by (simp add: error_parse_def parse_table_def provider_error_def empty_data_error_def
        error_text_def)
qed

text \<open>
  C7, amended: when the transport returns an error to the class-based \<open>userProfile\<close>, the
  attached \<open>error.data\<close> is parsed as JSON. If the parse succeeds and \<open>errors[0]\<close> can be
  read from the result, \<open>done\<close> gets an \<open>InternalOAuthError\<close> made of the provider's
  \<open>errors[0].error_message\<close> and the transport error's \<open>statusCode\<close> (and the uniform
  wrap in a second call, should this call of \<open>done\<close> throw). If the parse fails, or if it
  succeeds but \<open>errors[0]\<close> cannot be read, \<open>done\<close> gets the uniform wrap: an
  \<open>InternalOAuthError\<close> with the message \<open>Failed to fetch user profile\<close> and the
  transport error as its detail. The legacy \<open>userProfile\<close> hands \<open>done\<close> the uniform
  wrap for every transport error.
\<close>

theorem transport_error_wrapping:
  assumes "\<And>next. oauth2_get s (profileURL s) accessToken next = next error body res"
    and "\<And>next. oauth2_get l (profileURL l) accessToken next = next error body res"
    and "truthy error"
  shows
    "(\<forall>message. JSON_parse (get error ''data'') = Inl message \<longrightarrow>
        userProfile JSON_parse s accessToken done =
          done (JInternalOAuthError (JStr ''Failed to fetch user profile'') error) JUndefined) \<and>
     (\<forall>errorJSON. JSON_parse (get error ''data'') = Inr errorJSON \<longrightarrow>
        (if nullish errorJSON \<or> nullish (get errorJSON ''errors'') \<or>
            nullish (get0 (get errorJSON ''errors''))
         then userProfile JSON_parse s accessToken done =
                done (JInternalOAuthError (JStr ''Failed to fetch user profile'') error) JUndefined
         else userProfile JSON_parse s accessToken done =
                try_catch
                  (done (JInternalOAuthError
                           (get (get0 (get errorJSON ''errors'')) ''error_message'')
                           (get error ''statusCode''))
                        JUndefined)
                  (\<lambda>e. done (JInternalOAuthError (JStr ''Failed to fetch user profile'') error)
                          JUndefined))) \<and>
     userProfile_legacy JSON_parse l accessToken done =
       done (JInternalOAuthError (JStr ''Failed to fetch user profile'') error) JUndefined"
  unfolding userProfile_def userProfile_legacy_def assms(1) assms(2)
  using assms(3)
  by (simp add: userProfile_callback_def userProfile_callback_legacy_def try_catch_throw)

text \<open>
  C7, amended, at three transport errors for the class-based variant (a 401 answer whose
  data is the provider's error JSON; a socket error without data, for which the parse fails;
  an answer whose data is \<open>{}\<close>) and at the 401 answer for the legacy variant.
\<close>

theorem transport_error_wrapping_witness:
  "userProfile error_parse (failing_strategy provider_error) (JStr ''accessToken'') test_done =
     try_catch
       (test_done (JInternalOAuthError (JStr ''401 - Unauthorized'') (JNum (Finite 401))) JUndefined)
       (\<lambda>e. test_done (JInternalOAuthError (JStr ''Failed to fetch user profile'') provider_error)
               JUndefined) \<and>
   userProfile error_parse (failing_strategy socket_error) (JStr ''accessToken'') test_done =
     test_done (JInternalOAuthError (JStr ''Failed to fetch user profile'') socket_error)
       JUndefined \<and>
   userProfile error_parse (failing_strategy empty_data_error) (JStr ''accessToken'') test_done =
     test_done (JInternalOAuthError (JStr ''Failed to fetch user profile'') empty_data_error)
       JUndefined \<and>
   userProfile_legacy error_parse (failing_legacy_strategy provider_error) (JStr ''accessToken'')
     test_done =
     test_done (JInternalOAuthError (JStr ''Failed to fetch user profile'') provider_error)
       JUndefined"
proof -
  have "truthy provider_error" and "truthy socket_error" and "truthy empty_data_error"
    by (simp_all add: provider_error_def socket_error_def empty_data_error_def)
  note transport_error_wrapping [where s = "failing_strategy provider_error"
      and l = "failing_legacy_strategy provider_error"
      and error = provider_error and body = JNull and res = JNull and JSON_parse = error_parse
      and accessToken = "JStr ''accessToken''" and ?done = test_done,
      OF test_transport_delivers(7) failing_legacy_delivers \<open>truthy provider_error\<close>]
    transport_error_wrapping [where s = "failing_strategy socket_error"
      and l = "failing_legacy_strategy socket_error"
      and error = socket_error and body = JNull and res = JNull and JSON_parse = error_parse
      and accessToken = "JStr ''accessToken''" and ?done = test_done,
      OF test_transport_delivers(7) failing_legacy_delivers \<open>truthy socket_error\<close>]
    transport_error_wrapping [where s = "failing_strategy empty_data_error"
      and l = "failing_legacy_strategy empty_data_error"
      and error = empty_data_error and body = JNull and res = JNull and JSON_parse = error_parse
      and accessToken = "JStr ''accessToken''" and ?done = test_done,
      OF test_transport_delivers(7) failing_legacy_delivers \<open>truthy empty_data_error\<close>]
  then show ?thesis
    by (simp add: error_parse_def parse_table_def provider_error_def socket_error_def
        empty_data_error_def error_json_def error_text_def)
qed

subsection \<open>The call of the verify function\<close>

text \<open>
  C8: for a request with an access token, when the transport delivers without error a body
  that parses and from which the profile is built, in either variant: if
  \<open>passReqToCallback\<close> is \<open>true\<close>, the verify function is called with \<open>(req,
  accessToken, refreshToken, profile, verified)\<close>; if it is \<open>false\<close> or unset, with
  \<open>(accessToken, refreshToken, profile, verified)\<close>. The call happens inside the \<open>try\<close>
  block of \<open>userProfile\<close>: an exception it throws comes back to the callback of
  \<open>authenticate\<close> as a retrieval error.
\<close>

theorem verify_call_arguments:
  assumes "\<And>token next. oauth2_get s (profileURL s) token next = next error body res"
    and "\<And>token next. oauth2_get l (profileURL l) token next = next error body res"
    and "\<not> truthy error"
    and "JSON_parse body = Inr json"
    and "profile_object body json = Inr profile"
  shows
    "(truthy (accessToken_of inherited s req) \<and> passReqToCallback s = JBool True \<longrightarrow>
        authenticate inherited JSON_parse s req =
          try_catch
            (verify s [AReq req, AVal (accessToken_of inherited s req), AVal (refreshToken_of inherited s req),
                       AVal profile, AFun verified])
            (\<lambda>e. authenticate_callback s req (accessToken_of inherited s req) (refreshToken_of inherited s req)
                    e JUndefined)) \<and>
     (truthy (accessToken_of inherited s req) \<and>
      (passReqToCallback s = JBool False \<or> passReqToCallback s = JUndefined) \<longrightarrow>
        authenticate inherited JSON_parse s req =
          try_catch
            (verify s [AVal (accessToken_of inherited s req), AVal (refreshToken_of inherited s req),
                       AVal profile, AFun verified])
            (\<lambda>e. authenticate_callback s req (accessToken_of inherited s req) (refreshToken_of inherited s req)
                    e JUndefined)) \<and>
     (truthy (accessToken_of_legacy req) \<and> passReqToCallback l = JBool True \<longrightarrow>
        authenticate_legacy JSON_parse l req =
          try_catch
            (verify l [AReq req, AVal (accessToken_of_legacy req),
                       AVal (refreshToken_of_legacy req), AVal profile, AFun verified_legacy])
            (\<lambda>e. authenticate_callback_legacy l req (accessToken_of_legacy req)
                    (refreshToken_of_legacy req) e JUndefined)) \<and>
     (truthy (accessToken_of_legacy req) \<and>
      (passReqToCallback l = JBool False \<or> passReqToCallback l = JUndefined) \<longrightarrow>
        authenticate_legacy JSON_parse l req =
          try_catch
            (verify l [AVal (accessToken_of_legacy req), AVal (refreshToken_of_legacy req),
                       AVal profile, AFun verified_legacy])
            (\<lambda>e. authenticate_callback_legacy l req (accessToken_of_legacy req)
                    (refreshToken_of_legacy req) e JUndefined))"
proof -
  have class_based: "authenticate inherited JSON_parse s req =
      try_catch
        (authenticate_callback s req (accessToken_of inherited s req) (refreshToken_of inherited s req) JNull profile)
        (\<lambda>e. authenticate_callback s req (accessToken_of inherited s req) (refreshToken_of inherited s req)
                e JUndefined)"
    if "truthy (accessToken_of inherited s req)"
    using assms(1,3,4,5) that by (rule authenticate_retrieved)
  have legacy: "authenticate_legacy JSON_parse l req =
      try_catch
        (authenticate_callback_legacy l req (accessToken_of_legacy req)
           (refreshToken_of_legacy req) JNull profile)
        (\<lambda>e. authenticate_callback_legacy l req (accessToken_of_legacy req)
                (refreshToken_of_legacy req) e JUndefined)"
    if "truthy (accessToken_of_legacy req)"
    using assms(2,3,4,5) that by (rule authenticate_legacy_retrieved)
  show ?thesis
    using class_based legacy
    by (auto simp: authenticate_callback_def authenticate_callback_legacy_def)
qed

text \<open>
  C8 with the strategies of the tests, with and without \<open>passReqToCallback\<close>, the tokens
  in the body for the class-based variant and in the headers for the legacy one. The verify
  stubs return normally, so the run is that of the call.
\<close>

theorem verify_call_arguments_witness:
  "authenticate object_prototype test_parse test_strategy_req body_request =
     verify_stub_req [AReq body_request, AVal (JStr ''access_token''), AVal (JStr ''refresh_token''),
                      AVal (projr (profile_object (JStr fixture_text) fixture_json)),
                      AFun verified] \<and>
   authenticate object_prototype test_parse test_strategy body_request =
     verify_stub [AVal (JStr ''access_token''), AVal (JStr ''refresh_token''),
                  AVal (projr (profile_object (JStr fixture_text) fixture_json)), AFun verified] \<and>
   authenticate_legacy test_parse test_legacy_strategy_req headers_request =
     verify_stub_req [AReq headers_request, AVal (JStr ''access_token''),
                      AVal (JStr ''refresh_token''),
                      AVal (projr (profile_object (JStr fixture_text) fixture_json)),
                      AFun verified_legacy] \<and>
   authenticate_legacy test_parse test_legacy_strategy headers_request =
     verify_stub [AVal (JStr ''access_token''), AVal (JStr ''refresh_token''),
                  AVal (projr (profile_object (JStr fixture_text) fixture_json)),
                  AFun verified_legacy]"
proof -
  have falsy: "\<not> truthy JNull"
    by simp
  have profile: "profile_object (JStr fixture_text) fixture_json =
      Inr (projr (profile_object (JStr fixture_text) fixture_json))"
    by (simp add: profile_object_fixture)
  have returns:
    "snd (verify_stub_req [AReq r, AVal a, AVal b, AVal p, AFun verified]) = None"
    "snd (verify_stub [AVal a, AVal b, AVal p, AFun verified]) = None"
    "snd (verify_stub_req [AReq r, AVal a, AVal b, AVal p, AFun verified_legacy]) = None"
    "snd (verify_stub [AVal a, AVal b, AVal p, AFun verified_legacy]) = None"
    for r a b p
    by (simp_all add: verify_stub_completes verified_def verified_legacy_def
        this_error_def this_fail_def this_success_def)
  note verify_call_arguments [where s = test_strategy_req and l = test_legacy_strategy
      and error = JNull and body = "JStr fixture_text" and res = JNull and JSON_parse = test_parse
      and json = fixture_json and req = body_request
      and profile = "projr (profile_object (JStr fixture_text) fixture_json)",
      OF test_transport_delivers(2) test_transport_delivers(3) falsy test_parse_fixture profile]
    verify_call_arguments [where s = test_strategy and l = test_legacy_strategy_req
      and error = JNull and body = "JStr fixture_text" and res = JNull and JSON_parse = test_parse
      and json = fixture_json and req = body_request
      and profile = "projr (profile_object (JStr fixture_text) fixture_json)",
      OF test_transport_delivers(1) test_transport_delivers(4) falsy test_parse_fixture profile]
    verify_call_arguments [where s = test_strategy and l = test_legacy_strategy_req
      and error = JNull and body = "JStr fixture_text" and res = JNull and JSON_parse = test_parse
      and json = fixture_json and req = headers_request
      and profile = "projr (profile_object (JStr fixture_text) fixture_json)",
      OF test_transport_delivers(1) test_transport_delivers(4) falsy test_parse_fixture profile]
    verify_call_arguments [where s = test_strategy and l = test_legacy_strategy
      and error = JNull and body = "JStr fixture_text" and res = JNull and JSON_parse = test_parse
      and json = fixture_json and req = headers_request
      and profile = "projr (profile_object (JStr fixture_text) fixture_json)",
      OF test_transport_delivers(1) test_transport_delivers(3) falsy test_parse_fixture profile]
  then show ?thesis
    by (simp add: test_tokens test_collaborators returns try_catch_returns)
qed

subsection \<open>Determinism and agreement of the variants\<close>

text \<open>
  C9: with a transport stub that answers the call for an access token with a fixed
  \<open>(error, body, res)\<close>, two calls of \<open>userProfile\<close> with that token, with callbacks
  \<open>done1\<close> and \<open>done2\<close> that return normally, yield the same values, in either variant,
  and these are fixed by the stub's answer. When the body parses and the profile is built,
  both calls yield \<open>(null, profile)\<close> with the one canonical profile of that body:
  provider \<open>soundcloud\<close>, the id and username of the JSON, displayName and the two name
  parts from its full name, no emails, one photo, the body as \<open>_raw\<close> and the JSON as
  \<open>_json\<close>. When building the profile throws, or the body does not parse, both calls
  yield that exception and no profile; on a transport error both calls yield one wrapped
  error and no profile.
\<close>

theorem userProfile_deterministic:
  assumes "\<And>next. oauth2_get s (profileURL s) accessToken next = next error body res"
    and "\<And>next. oauth2_get l (profileURL l) accessToken next = next error body res"
    and "\<And>a b. snd (done1 a b) = None"
    and "\<And>a b. snd (done2 a b) = None"
  shows
    "(\<not> truthy error \<and> JSON_parse body = Inr json \<and> profile_object body json = Inr profile \<longrightarrow>
        userProfile JSON_parse s accessToken done1 = done1 JNull profile \<and>
        userProfile JSON_parse s accessToken done2 = done2 JNull profile \<and>
        userProfile_legacy JSON_parse l accessToken done1 = done1 JNull profile \<and>
        userProfile_legacy JSON_parse l accessToken done2 = done2 JNull profile \<and>
        get profile ''provider'' = JStr ''soundcloud'' \<and>
        get profile ''id'' = get json ''id'' \<and>
        get profile ''username'' = get json ''username'' \<and>
        get profile ''displayName'' = js_or (get json ''full_name'') (JStr []) \<and>
        name_part (get json ''full_name'') 0 = Inr (get (get profile ''name'') ''givenName'') \<and>
        name_part (get json ''full_name'') 1 = Inr (get (get profile ''name'') ''familyName'') \<and>
        get profile ''emails'' = JArr [] \<and>
        get profile ''photos'' =
          JArr [JObj [(''value'', js_or (get json ''avatar_url'') (JStr []))]] \<and>
        get profile ''_raw'' = body \<and>
        get profile ''_json'' = json) \<and>
     (\<not> truthy error \<and> JSON_parse body = Inr json \<and> profile_object body json = Inl e \<longrightarrow>
        userProfile JSON_parse s accessToken done1 = done1 e JUndefined \<and>
        userProfile JSON_parse s accessToken done2 = done2 e JUndefined \<and>
        userProfile_legacy JSON_parse l accessToken done1 = done1 e JUndefined \<and>
        userProfile_legacy JSON_parse l accessToken done2 = done2 e JUndefined) \<and>
     (\<not> truthy error \<and> JSON_parse body = Inl message \<longrightarrow>
        userProfile JSON_parse s accessToken done1 = done1 (JSyntaxError message) JUndefined \<and>
        userProfile JSON_parse s accessToken done2 = done2 (JSyntaxError message) JUndefined \<and>
        userProfile_legacy JSON_parse l accessToken done1 =
          done1 (JSyntaxError message) JUndefined \<and>
        userProfile_legacy JSON_parse l accessToken done2 =
          done2 (JSyntaxError message) JUndefined) \<and>
     (truthy error \<longrightarrow>
        (\<exists>err. userProfile JSON_parse s accessToken done1 = done1 err JUndefined \<and>
               userProfile JSON_parse s accessToken done2 = done2 err JUndefined) \<and>
        userProfile_legacy JSON_parse l accessToken done1 =
          done1 (JInternalOAuthError (JStr ''Failed to fetch user profile'') error) JUndefined \<and>
        userProfile_legacy JSON_parse l accessToken done2 =
          done2 (JInternalOAuthError (JStr ''Failed to fetch user profile'') error) JUndefined)"
proof (intro conjI impI)
  assume built: "\<not> truthy error \<and> JSON_parse body = Inr json \<and>
    profile_object body json = Inr profile"
  then have class_based: "userProfile_callback JSON_parse k error body res =
      try_catch (k JNull profile) (\<lambda>e. k e JUndefined)" for k
    by (simp add: userProfile_callback_parsed)
  from built have legacy: "userProfile_callback_legacy JSON_parse k error body res =
      try_catch (k JNull profile) (\<lambda>e. k e JUndefined)" for k
    by (simp add: userProfile_callback_legacy_parsed)
  show "userProfile JSON_parse s accessToken done1 = done1 JNull profile"
    and "userProfile JSON_parse s accessToken done2 = done2 JNull profile"
    by (simp_all add: userProfile_def assms class_based try_catch_returns)
  show "userProfile_legacy JSON_parse l accessToken done1 = done1 JNull profile"
    and "userProfile_legacy JSON_parse l accessToken done2 = done2 JNull profile"
    by (simp_all add: userProfile_legacy_def assms legacy try_catch_returns)
  from built have p: "profile_object body json = Inr profile"
    by simp
  show "get profile ''provider'' = JStr ''soundcloud''"
    and "get profile ''id'' = get json ''id''"
    and "get profile ''username'' = get json ''username''"
    and "get profile ''displayName'' = js_or (get json ''full_name'') (JStr [])"
    and "name_part (get json ''full_name'') 0 = Inr (get (get profile ''name'') ''givenName'')"
    and "name_part (get json ''full_name'') 1 = Inr (get (get profile ''name'') ''familyName'')"
    and "get profile ''emails'' = JArr []"
    and "get profile ''photos'' =
           JArr [JObj [(''value'', js_or (get json ''avatar_url'') (JStr []))]]"
    and "get profile ''_raw'' = body"
    and "get profile ''_json'' = json"
    by (rule profile_object_fields [OF p])+
next
  assume thrown: "\<not> truthy error \<and> JSON_parse body = Inr json \<and>
    profile_object body json = Inl e"
  then show "userProfile JSON_parse s accessToken done1 = done1 e JUndefined"
    and "userProfile JSON_parse s accessToken done2 = done2 e JUndefined"
    by (simp_all add: userProfile_def assms userProfile_callback_def try_catch_throw)
  from thrown show "userProfile_legacy JSON_parse l accessToken done1 = done1 e JUndefined"
    and "userProfile_legacy JSON_parse l accessToken done2 = done2 e JUndefined"
    by (simp_all add: userProfile_legacy_def assms userProfile_callback_legacy_def
        profile_object_legacy_eq try_catch_throw)
next
  assume garbled: "\<not> truthy error \<and> JSON_parse body = Inl message"
  then show
    "userProfile JSON_parse s accessToken done1 = done1 (JSyntaxError message) JUndefined"
    and "userProfile JSON_parse s accessToken done2 = done2 (JSyntaxError message) JUndefined"
    by (simp_all add: userProfile_def assms userProfile_callback_unparseable)
  from garbled show
    "userProfile_legacy JSON_parse l accessToken done1 = done1 (JSyntaxError message) JUndefined"
    and "userProfile_legacy JSON_parse l accessToken done2 =
           done2 (JSyntaxError message) JUndefined"
    by (simp_all add: userProfile_legacy_def assms userProfile_callback_legacy_unparseable)
next
  assume failed: "truthy error"
  then obtain err where err: "\<And>k. (\<forall>a b. snd (k a b) = None) \<Longrightarrow>
      userProfile_callback JSON_parse k error body res = k err JUndefined"
    using userProfile_callback_transport_error [of error JSON_parse body res] by blast
  show "\<exists>err. userProfile JSON_parse s accessToken done1 = done1 err JUndefined \<and>
      userProfile JSON_parse s accessToken done2 = done2 err JUndefined"
    by (intro exI [of _ err]) (simp add: userProfile_def assms err)
  from failed show "userProfile_legacy JSON_parse l accessToken done1 =
      done1 (JInternalOAuthError (JStr ''Failed to fetch user profile'') error) JUndefined"
    and "userProfile_legacy JSON_parse l accessToken done2 =
      done2 (JInternalOAuthError (JStr ''Failed to fetch user profile'') error) JUndefined"
    by (simp_all add: userProfile_legacy_def assms userProfile_callback_legacy_transport_error)
qed

text \<open>
  C9 with the stubbed transport of the tests and the two callbacks that \<open>authenticate\<close>
  passes on, with and without the request: both calls, in both variants, yield the profile
  of the example.
\<close>

theorem userProfile_deterministic_witness:
  "userProfile test_parse test_strategy (JStr ''accessToken'') test_done =
     test_done JNull (projr (profile_object (JStr fixture_text) fixture_json)) \<and>
   userProfile test_parse test_strategy (JStr ''accessToken'') test_done_req =
     test_done_req JNull (projr (profile_object (JStr fixture_text) fixture_json)) \<and>
   userProfile_legacy test_parse test_legacy_strategy (JStr ''accessToken'') test_done =
     test_done JNull (projr (profile_object (JStr fixture_text) fixture_json)) \<and>
   userProfile_legacy test_parse test_legacy_strategy (JStr ''accessToken'') test_done_req =
     test_done_req JNull (projr (profile_object (JStr fixture_text) fixture_json)) \<and>
   get (projr (profile_object (JStr fixture_text) fixture_json)) ''provider'' =
     JStr ''soundcloud'' \<and>
   get (projr (profile_object (JStr fixture_text) fixture_json)) ''id'' = JStr ''3207'' \<and>
   get (projr (profile_object (JStr fixture_text) fixture_json)) ''_raw'' = JStr fixture_text \<and>
   get (projr (profile_object (JStr fixture_text) fixture_json)) ''_json'' = fixture_json"
proof -
  have profile: "profile_object (JStr fixture_text) fixture_json =
      Inr (projr (profile_object (JStr fixture_text) fixture_json))"
    by (simp add: profile_object_fixture)
  note userProfile_deterministic [where s = test_strategy and l = test_legacy_strategy
      and error = JNull and body = "JStr fixture_text" and res = JNull
      and accessToken = "JStr ''accessToken''" and JSON_parse = test_parse
      and ?done1.0 = test_done and ?done2.0 = test_done_req and json = fixture_json
      and profile = "projr (profile_object (JStr fixture_text) fixture_json)",
      OF test_transport_delivers(1) test_transport_delivers(3) test_done_returns]
  then show ?thesis
    using profile by (simp add: test_parse_fixture fixture_json_def)
qed

text \<open>
  C10: for every body that parses as JSON, the class-based and the legacy \<open>userProfile\<close>
  build the same profile from it, or throw the same exception; on every delivery without
  transport error their callbacks do the same, and so do the two \<open>userProfile\<close> when
  their transports deliver the same.
\<close>

theorem profile_normalization_agrees:
  assumes "JSON_parse body = Inr json"
  shows
    "profile_object body json = profile_object_legacy body json \<and>
     (\<not> truthy error \<longrightarrow>
        userProfile_callback JSON_parse done error body res =
          userProfile_callback_legacy JSON_parse done error body res) \<and>
     ((\<forall>next. oauth2_get s (profileURL s) accessToken next = next error body res) \<and>
      (\<forall>next. oauth2_get l (profileURL l) accessToken next = next error body res) \<and>
      \<not> truthy error \<longrightarrow>
        userProfile JSON_parse s accessToken done = userProfile_legacy JSON_parse l accessToken done)"
proof (intro conjI impI)
  show "profile_object body json = profile_object_legacy body json"
    by (simp add: profile_object_legacy_eq)
  show callbacks: "userProfile_callback JSON_parse k error body res =
      userProfile_callback_legacy JSON_parse k error body res" if "\<not> truthy error" for k
    using that assms
    by (simp add: userProfile_callback_def userProfile_callback_legacy_def
        profile_object_legacy_eq)
  show "userProfile JSON_parse s accessToken done = userProfile_legacy JSON_parse l accessToken done"
    if "(\<forall>next. oauth2_get s (profileURL s) accessToken next = next error body res) \<and>
      (\<forall>next. oauth2_get l (profileURL l) accessToken next = next error body res) \<and>
      \<not> truthy error"
    using that by (simp add: userProfile_def userProfile_legacy_def callbacks)
qed

text \<open>C10 at the example JSON, with the stubbed transport of the tests.\<close>

theorem profile_normalization_agrees_witness:
  "profile_object (JStr fixture_text) fixture_json =
     profile_object_legacy (JStr fixture_text) fixture_json \<and>
   userProfile_callback test_parse test_done JNull (JStr fixture_text) JNull =
     userProfile_callback_legacy test_parse test_done JNull (JStr fixture_text) JNull \<and>
   userProfile test_parse test_strategy (JStr ''accessToken'') test_done =
     userProfile_legacy test_parse test_legacy_strategy (JStr ''accessToken'') test_done"
  using profile_normalization_agrees [where JSON_parse = test_parse
      and body = "JStr fixture_text" and json = fixture_json and error = JNull
      and ?done = test_done and res = JNull and s = test_strategy and l = test_legacy_strategy
      and accessToken = "JStr ''accessToken''", OF test_parse_fixture]
  by (simp add: test_transport_delivers)

end
